theory Spec2Isabelle
  imports Main
begin

section \<open>Data model\<close>

text \<open>
  The relational store of the merchant backend, as far as the inventory ledger, the
  cart checkout, the Stripe event ingestion, the discount limiter, the reaper and the
  outbound dispatcher read and write it. A table that is only read through a lookup by
  a unique key is a map from that key; a table that is scanned is the list of its rows
  in insertion order (the order in which SQLite returns them). Timestamps (ISO strings
  in the source, compared as strings) are natural numbers; identifiers made by
  \<^verbatim>\<open>uuid()\<close> are arguments of the operation that needs them. Columns that no
  modelled statement reads are left out, among them every \<^verbatim>\<open>updated_at\<close>. The
  table of carts has no such column (schema-d1.sql), so the cart record has none either.
  Times are milliseconds.
\<close>

datatype api_error = ApiError (err_code: string) (statusCode: nat) (message: string)

definition notFound :: "string \<Rightarrow> api_error" where
  "notFound m = ApiError ''not_found'' 404 m"

definition invalidRequest :: "string \<Rightarrow> api_error" where
  "invalidRequest m = ApiError ''invalid_request'' 400 m"

definition conflict :: "string \<Rightarrow> api_error" where
  "conflict m = ApiError ''conflict'' 409 m"

definition insufficientInventory :: "string \<Rightarrow> api_error" where
  "insufficientInventory s =
     ApiError ''insufficient_inventory'' 409 (''Insufficient inventory for SKU: '' @ s)"

record inventory_row =
  on_hand :: int
  reserved :: int

datatype log_reason = Restock | Correction | Damaged | Return | Sale | Release

record inventory_log =
  log_store_id :: string
  log_sku :: string
  log_delta :: int
  log_reason :: log_reason

datatype variant_status = VActive | VDraft

record variant =
  v_store_id :: string
  v_sku :: string
  v_title :: string
  v_price_cents :: int
  v_status :: variant_status

datatype cart_status = Open | CheckedOut | Expired

record cart =
  c_id :: string
  c_store_id :: string
  c_status :: cart_status
  c_customer_email :: string
  c_currency :: string
  c_stripe_checkout_session_id :: "string option"
  c_discount_id :: "string option"
  c_expires_at :: nat

record cart_item =
  ci_cart_id :: string
  ci_sku :: string
  ci_title :: string
  ci_qty :: int
  ci_unit_price_cents :: int

record store =
  s_id :: string
  s_stripe_secret_key :: "string option"
  s_stripe_webhook_secret :: "string option"

record customer =
  cu_id :: string
  cu_name :: "string option"
  cu_phone :: "string option"
  cu_order_count :: int
  cu_total_spent_cents :: int

record customer_address =
  ca_customer_id :: string
  ca_is_default :: int
  ca_name :: "string option"
  ca_line1 :: string
  ca_line2 :: "string option"
  ca_city :: string
  ca_state :: "string option"
  ca_postal_code :: string
  ca_country :: string
  ca_phone :: "string option"

record order_row =
  o_id :: string
  o_store_id :: string
  o_customer_id :: "string option"
  o_number :: string
  o_customer_email :: string
  o_subtotal_cents :: int
  o_total_cents :: int
  o_discount_id :: "string option"
  o_discount_amount_cents :: int
  o_stripe_checkout_session_id :: "string option"

record order_item =
  oi_order_id :: string
  oi_sku :: string
  oi_title :: string
  oi_qty :: int
  oi_unit_price_cents :: int

record event_row =
  e_store_id :: string
  e_stripe_event_id :: string
  e_type :: string

datatype discount_status = DActive | DInactive

record discount =
  d_id :: string
  d_store_id :: string
  d_code :: string
  d_status :: discount_status
  d_starts_at :: "nat option"
  d_expires_at :: "nat option"
  d_usage_limit :: "int option"
  d_usage_limit_per_customer :: "int option"
  d_usage_count :: int

record discount_usage_row =
  du_discount_id :: string
  du_order_id :: string
  du_customer_email :: string
  du_discount_amount_cents :: int

datatype webhook_status = WActive | WDisabled

record webhook =
  w_id :: string
  w_store_id :: string
  w_url :: string
  w_events :: "string list"
  w_secret :: string
  w_status :: webhook_status

datatype delivery_status = Pending | Success | Failed

record delivery =
  wd_id :: string
  wd_webhook_id :: string
  wd_event_type :: string
  wd_status :: delivery_status
  wd_attempts :: int
  wd_response_code :: "int option"
  wd_created_at :: nat

record db =
  stores :: "string \<rightharpoonup> store"
  variants :: "variant list"
  inventory :: "(string \<times> string) \<rightharpoonup> inventory_row"
  inventory_logs :: "inventory_log list"
  carts :: "cart list"
  cart_items :: "cart_item list"
  customers :: "(string \<times> string) \<rightharpoonup> customer"
  customer_addresses :: "customer_address list"
  orders :: "order_row list"
  order_items :: "order_item list"
  events :: "event_row list"
  discounts :: "discount list"
  discount_usage :: "discount_usage_row list"
  webhooks :: "webhook list"
  webhook_deliveries :: "delivery list"

section \<open>Inventory ledger statements\<close>

text \<open>
  \<^verbatim>\<open>UPDATE inventory SET reserved = reserved + ? WHERE store_id = ? AND sku = ?
    AND on_hand - reserved >= ?\<close> (checkout.ts, lines 178 to 183), with the number of rows
  it changed. \<^verbatim>\<open>UNIQUE(store_id, sku)\<close> makes that number 0 or 1.
\<close>

definition reserve_stmt :: "db \<Rightarrow> string \<Rightarrow> string \<Rightarrow> int \<Rightarrow> nat \<times> db" where
  "reserve_stmt d sid s q =
     (case inventory d (sid, s) of
        None \<Rightarrow> (0, d)
      | Some r \<Rightarrow>
          if on_hand r - reserved r \<ge> q
          then (1, d\<lparr>inventory := (inventory d)((sid, s) \<mapsto> r\<lparr>reserved := reserved r + q\<rparr>)\<rparr>)
          else (0, d))"

text \<open>
  \<^verbatim>\<open>UPDATE inventory SET reserved = reserved - ? WHERE store_id = ? AND sku = ?\<close>:
  the release of checkout.ts (lines 189 to 192 and 243 to 246).
\<close>

definition release_stmt :: "db \<Rightarrow> string \<Rightarrow> string \<Rightarrow> int \<Rightarrow> db" where
  "release_stmt d sid s q =
     (case inventory d (sid, s) of
        None \<Rightarrow> d
      | Some r \<Rightarrow> d\<lparr>inventory := (inventory d)((sid, s) \<mapsto> r\<lparr>reserved := reserved r - q\<rparr>)\<rparr>)"

text \<open>
  \<^verbatim>\<open>UPDATE inventory SET reserved = MAX(reserved - ?, 0) WHERE store_id = ? AND sku = ?\<close>:
  the release of cron.ts (lines 24 to 27 and 55 to 58).
\<close>

definition release_floor_stmt :: "db \<Rightarrow> string \<Rightarrow> string \<Rightarrow> int \<Rightarrow> db" where
  "release_floor_stmt d sid s q =
     (case inventory d (sid, s) of
        None \<Rightarrow> d
      | Some r \<Rightarrow>
          d\<lparr>inventory := (inventory d)((sid, s) \<mapsto> r\<lparr>reserved := max (reserved r - q) 0\<rparr>)\<rparr>)"

text \<open>
  \<^verbatim>\<open>UPDATE inventory SET reserved = reserved - ?, on_hand = on_hand - ? WHERE store_id = ?
    AND sku = ?\<close>: the sale commit of webhooks.ts (lines 159 to 162).
\<close>

definition commit_sale_stmt :: "db \<Rightarrow> string \<Rightarrow> string \<Rightarrow> int \<Rightarrow> db" where
  "commit_sale_stmt d sid s q =
     (case inventory d (sid, s) of
        None \<Rightarrow> d
      | Some r \<Rightarrow>
          d\<lparr>inventory := (inventory d)((sid, s) \<mapsto>
               r\<lparr>reserved := reserved r - q, on_hand := on_hand r - q\<rparr>)\<rparr>)"

definition insert_log :: "db \<Rightarrow> string \<Rightarrow> string \<Rightarrow> int \<Rightarrow> log_reason \<Rightarrow> db" where
  "insert_log d sid s dl rs =
     d\<lparr>inventory_logs := inventory_logs d @
        [\<lparr>log_store_id = sid, log_sku = s, log_delta = dl, log_reason = rs\<rparr>]\<rparr>"

text \<open>\<^verbatim>\<open>SELECT * FROM cart_items WHERE cart_id = ?\<close>\<close>

definition items_of_cart :: "db \<Rightarrow> string \<Rightarrow> cart_item list" where
  "items_of_cart d cid = filter (\<lambda>i. ci_cart_id i = cid) (cart_items d)"

definition find_cart :: "db \<Rightarrow> string \<Rightarrow> cart option" where
  "find_cart d cid = find (\<lambda>c. c_id c = cid) (carts d)"

text \<open>\<^verbatim>\<open>UPDATE carts SET ... WHERE id = ?\<close>\<close>

definition update_cart :: "db \<Rightarrow> string \<Rightarrow> (cart \<Rightarrow> cart) \<Rightarrow> db" where
  "update_cart d cid f = d\<lparr>carts := map (\<lambda>c. if c_id c = cid then f c else c) (carts d)\<rparr>"

section \<open>Cart routes (checkout.ts)\<close>

text \<open>
  The loop of \<^verbatim>\<open>POST /v1/carts/:cartId/items\<close> (lines 103 to 134). A submitted item is
  a SKU and a quantity; JavaScript's \<^verbatim>\<open>!sku\<close> is the empty string, \<^verbatim>\<open>!qty\<close> is zero.
  The first variant row of the SKU is the one the source destructures. An error leaves
  the rows inserted so far in place.
\<close>

fun add_items ::
  "db \<Rightarrow> string \<Rightarrow> string \<Rightarrow> (string \<times> int) list \<Rightarrow> cart_item list \<Rightarrow>
     (api_error + cart_item list) \<times> db" where
  "add_items d sid cid [] newItems = (Inr newItems, d)"
| "add_items d sid cid ((s, q) # rest) newItems =
     (if s = [] \<or> q = 0 \<or> q < 1 then (Inl (invalidRequest ''Each item needs sku and qty > 0''), d)
      else case find (\<lambda>v. v_store_id v = sid \<and> v_sku v = s) (variants d) of
        None \<Rightarrow> (Inl (notFound (''SKU not found: '' @ s)), d)
      | Some v \<Rightarrow>
          if v_status v \<noteq> VActive then (Inl (invalidRequest (''SKU not active: '' @ s)), d)
          else
            let available =
              (case inventory d (sid, s) of None \<Rightarrow> 0 | Some r \<Rightarrow> on_hand r - reserved r)
            in if available < q then (Inl (insufficientInventory s), d)
               else
                 let item = \<lparr>ci_cart_id = cid, ci_sku = s, ci_title = v_title v, ci_qty = q,
                              ci_unit_price_cents = v_price_cents v\<rparr>
                 in add_items (d\<lparr>cart_items := cart_items d @ [item]\<rparr>) sid cid rest
                      (newItems @ [item]))"

text \<open>\<^verbatim>\<open>POST /v1/carts/:cartId/items\<close> (lines 79 to 144), for the store of the caller.\<close>

definition post_cart_items ::
  "db \<Rightarrow> string \<Rightarrow> string \<Rightarrow> (string \<times> int) list \<Rightarrow> (api_error + cart_item list) \<times> db" where
  "post_cart_items d sid cid items =
     (if items = [] then (Inl (invalidRequest ''items array is required''), d)
      else case find (\<lambda>c. c_id c = cid \<and> c_store_id c = sid) (carts d) of
        None \<Rightarrow> (Inl (notFound ''Cart not found''), d)
      | Some c \<Rightarrow>
          if c_status c \<noteq> Open then (Inl (conflict ''Cart is not open''), d)
          else add_items (d\<lparr>cart_items := filter (\<lambda>i. ci_cart_id i \<noteq> cid) (cart_items d)\<rparr>)
                 sid cid items [])"

text \<open>
  The rollback of lines 187 to 193: it walks the cart's items from the first and stops
  at the first one whose SKU is the failing item's.
\<close>

fun rollback :: "db \<Rightarrow> string \<Rightarrow> string \<Rightarrow> cart_item list \<Rightarrow> db" where
  "rollback d sid failed_sku [] = d"
| "rollback d sid failed_sku (prevItem # rest) =
     (if ci_sku prevItem = failed_sku then d
      else rollback (release_stmt d sid (ci_sku prevItem) (ci_qty prevItem)) sid failed_sku rest)"

text \<open>
  The reservation loop of lines 177 to 196 over the items still to reserve;
  \<open>items\<close> is the whole list, which the rollback walks.
\<close>

fun reserve_loop :: "db \<Rightarrow> string \<Rightarrow> cart_item list \<Rightarrow> cart_item list \<Rightarrow> (api_error + unit) \<times> db" where
  "reserve_loop d sid items [] = (Inr (), d)"
| "reserve_loop d sid items (item # rest) =
     (case reserve_stmt d sid (ci_sku item) (ci_qty item) of
        (changes, d') \<Rightarrow>
          if changes = 0
          then (Inl (insufficientInventory (ci_sku item)), rollback d' sid (ci_sku item) items)
          else reserve_loop d' sid items rest)"

text \<open>The release after a Stripe error, lines 242 to 247.\<close>

fun release_all :: "db \<Rightarrow> string \<Rightarrow> cart_item list \<Rightarrow> db" where
  "release_all d sid [] = d"
| "release_all d sid (item # rest) =
     release_all (release_stmt d sid (ci_sku item) (ci_qty item)) sid rest"

text \<open>
  What \<^verbatim>\<open>stripe.checkout.sessions.create\<close> answered: an error with its message, or
  a session with its identifier and URL.
\<close>

datatype stripe_create = StripeError string | StripeSession string string

text \<open>
  \<^verbatim>\<open>POST /v1/carts/:cartId/checkout\<close> (lines 147 to 260) for the authenticated store
  \<open>st\<close>. A missing URL is the empty string. The answer is the checkout URL and the
  session identifier.
\<close>

definition post_cart_checkout ::
  "db \<Rightarrow> store \<Rightarrow> string \<Rightarrow> string \<Rightarrow> string \<Rightarrow> stripe_create \<Rightarrow>
     (api_error + string \<times> string) \<times> db" where
  "post_cart_checkout d st cid successUrl cancelUrl stripe =
     (if successUrl = [] then (Inl (invalidRequest ''success_url is required''), d)
      else if cancelUrl = [] then (Inl (invalidRequest ''cancel_url is required''), d)
      else if s_stripe_secret_key st = None \<or> s_stripe_secret_key st = Some []
      then (Inl (invalidRequest ''Stripe not connected. POST /v1/setup/stripe first.''), d)
      else case find (\<lambda>c. c_id c = cid \<and> c_store_id c = s_id st) (carts d) of
        None \<Rightarrow> (Inl (notFound ''Cart not found''), d)
      | Some c \<Rightarrow>
          if c_status c \<noteq> Open then (Inl (conflict ''Cart is not open''), d)
          else
            let items = items_of_cart d cid
            in if items = [] then (Inl (invalidRequest ''Cart is empty''), d)
               else case reserve_loop d (s_id st) items items of
                 (Inl e, d') \<Rightarrow> (Inl e, d')
               | (Inr u, d') \<Rightarrow>
                   (case stripe of
                      StripeError m \<Rightarrow>
                        (Inl (invalidRequest (''Stripe error: '' @ m)),
                         release_all d' (s_id st) items)
                    | StripeSession session_id url \<Rightarrow>
                        (Inr (url, session_id),
                         update_cart d' cid (\<lambda>c. c\<lparr>c_status := CheckedOut,
                           c_stripe_checkout_session_id := Some session_id\<rparr>))))"

section \<open>Outbound webhook dispatcher (lib/webhooks.ts)\<close>

definition MAX_ATTEMPTS :: nat where
  "MAX_ATTEMPTS = 3"

definition LOW_INVENTORY_THRESHOLD :: int where
  "LOW_INVENTORY_THRESHOLD = 5"

definition endsWith :: "string \<Rightarrow> string \<Rightarrow> bool" where
  "endsWith s suffix = (length suffix \<le> length s \<and> drop (length s - length suffix) s = suffix)"

definition startsWith :: "string \<Rightarrow> string \<Rightarrow> bool" where
  "startsWith s pre = (take (length pre) s = pre)"

text \<open>The test of one subscribed pattern against the event type, lines 85 to 93.\<close>

definition pattern_matches :: "string \<Rightarrow> string \<Rightarrow> bool" where
  "pattern_matches e eventType =
     (if e = ''*'' then True
      else if e = eventType then True
      else if endsWith e ''.*'' then startsWith eventType (take (length e - 2) e @ ''.'')
      else False)"

definition isSubscribed :: "webhook \<Rightarrow> string \<Rightarrow> bool" where
  "isSubscribed w eventType = list_ex (\<lambda>e. pattern_matches e eventType) (w_events w)"

text \<open>
  The loop of \<^verbatim>\<open>dispatchWebhooks\<close> (lines 80 to 117) over the active webhooks of the
  store: a pending delivery row per subscribed webhook. \<open>new_id\<close> gives the identifier
  \<^verbatim>\<open>uuid()\<close> made for the delivery to a webhook. The deliveries themselves run later
  (\<^verbatim>\<open>ctx.waitUntil\<close>); the function returns the identifiers it scheduled.
\<close>

fun dispatch_loop ::
  "db \<Rightarrow> (string \<Rightarrow> string) \<Rightarrow> string \<Rightarrow> nat \<Rightarrow> webhook list \<Rightarrow> string list \<Rightarrow>
     string list \<times> db" where
  "dispatch_loop d new_id eventType t [] scheduled = (scheduled, d)"
| "dispatch_loop d new_id eventType t (w # ws) scheduled =
     (if \<not> isSubscribed w eventType then dispatch_loop d new_id eventType t ws scheduled
      else
        let deliveryId = new_id (w_id w);
            row = \<lparr>wd_id = deliveryId, wd_webhook_id = w_id w, wd_event_type = eventType,
                   wd_status = Pending, wd_attempts = 0, wd_response_code = None,
                   wd_created_at = t\<rparr>
        in dispatch_loop (d\<lparr>webhook_deliveries := webhook_deliveries d @ [row]\<rparr>)
             new_id eventType t ws (scheduled @ [deliveryId]))"

definition dispatchWebhooks ::
  "db \<Rightarrow> (string \<Rightarrow> string) \<Rightarrow> string \<Rightarrow> string \<Rightarrow> nat \<Rightarrow> string list \<times> db" where
  "dispatchWebhooks d new_id storeId eventType t =
     dispatch_loop d new_id eventType t
       (filter (\<lambda>w. w_store_id w = storeId \<and> w_status w = WActive) (webhooks d)) []"

text \<open>\<^verbatim>\<open>UPDATE webhook_deliveries SET ... WHERE id = ?\<close>\<close>

definition update_delivery :: "db \<Rightarrow> string \<Rightarrow> (delivery \<Rightarrow> delivery) \<Rightarrow> db" where
  "update_delivery d did f =
     d\<lparr>webhook_deliveries := map (\<lambda>r. if wd_id r = did then f r else r) (webhook_deliveries d)\<rparr>"

text \<open>
  What \<^verbatim>\<open>fetch\<close> gave on one attempt: it threw (network failure, timeout), or a
  response with its status.
\<close>

datatype fetch_result = FetchThrew | Http int

text \<open>
  \<^verbatim>\<open>deliverWebhook\<close>, lines 140 to 202: the attempt loop from \<open>attempt\<close> on, and the
  update after the loop. \<open>fetch attempt\<close> is what the endpoint answered on that attempt,
  \<open>responseCode\<close> the last status seen, \<open>slept\<close> the delays waited so far, in
  milliseconds. \<open>response.ok\<close> is a status from 200 to 299.
\<close>

function deliver_loop ::
  "db \<Rightarrow> string \<Rightarrow> (nat \<Rightarrow> fetch_result) \<Rightarrow> nat \<Rightarrow> int option \<Rightarrow> nat list \<Rightarrow> db \<times> nat list" where
  "deliver_loop d deliveryId fetch attempt responseCode slept =
     (if attempt \<le> MAX_ATTEMPTS then
        let d1 = update_delivery d deliveryId (\<lambda>r. r\<lparr>wd_attempts := int attempt\<rparr>);
            slept' = (if attempt < MAX_ATTEMPTS then slept @ [2 ^ attempt * 1000] else slept)
        in case fetch attempt of
             FetchThrew \<Rightarrow> deliver_loop d1 deliveryId fetch (attempt + 1) responseCode slept'
           | Http status \<Rightarrow>
               if 200 \<le> status \<and> status \<le> 299
               then (update_delivery d1 deliveryId
                       (\<lambda>r. r\<lparr>wd_status := Success, wd_response_code := Some status\<rparr>), slept)
               else if status \<ge> 400 \<and> status < 500 \<and> status \<noteq> 429
               then (update_delivery d1 deliveryId
                       (\<lambda>r. r\<lparr>wd_status := Failed, wd_response_code := Some status\<rparr>), slept)
               else deliver_loop d1 deliveryId fetch (attempt + 1) (Some status) slept'
      else (update_delivery d deliveryId
              (\<lambda>r. r\<lparr>wd_status := Failed, wd_response_code := responseCode\<rparr>), slept))"
  by pat_completeness auto
termination
  by (relation "measure (\<lambda>(d, deliveryId, fetch, attempt, responseCode, slept).
        MAX_ATTEMPTS + 1 - attempt)") auto

definition deliverWebhook :: "db \<Rightarrow> string \<Rightarrow> (nat \<Rightarrow> fetch_result) \<Rightarrow> db \<times> nat list" where
  "deliverWebhook d deliveryId fetch = deliver_loop d deliveryId fetch 1 None []"

text \<open>The calendar day (UTC) of a time, counted from the day of time 0.\<close>

definition day_of :: "nat \<Rightarrow> int" where
  "day_of t = int t div 86400000"

text \<open>
  The query of \<^verbatim>\<open>retryFailedDeliveries\<close>, lines 249 to 257. \<open>cutoff\<close> is the time of
  \<^verbatim>\<open>datetime('now', '-24 hours')\<close>. The column \<^verbatim>\<open>created_at\<close> holds the text of
  \<^verbatim>\<open>now()\<close>, with the letter T after the date; SQLite's \<^verbatim>\<open>datetime\<close> puts a
  blank there. The query compares the two as text, and T is above the blank: a row passes
  exactly when its day is not before the day of the cutoff.
\<close>

definition failed_deliveries :: "db \<Rightarrow> nat \<Rightarrow> delivery list" where
  "failed_deliveries d cutoff =
     take 50 (filter (\<lambda>wd. wd_status wd = Failed \<and> wd_attempts wd < int MAX_ATTEMPTS \<and>
                            list_ex (\<lambda>w. w_id w = wd_webhook_id wd \<and> w_status w = WActive) (webhooks d) \<and>
                            day_of (wd_created_at wd) \<ge> day_of cutoff)
               (webhook_deliveries d))"

text \<open>
  The loop of lines 260 to 281: every selected delivery whose webhook is found goes
  back to pending and is scheduled for \<^verbatim>\<open>deliverWebhook\<close>.
\<close>

fun requeue_loop :: "db \<Rightarrow> delivery list \<Rightarrow> string list \<Rightarrow> string list \<times> db" where
  "requeue_loop d [] scheduled = (scheduled, d)"
| "requeue_loop d (wd # rest) scheduled =
     (case find (\<lambda>w. w_id w = wd_webhook_id wd) (webhooks d) of
        None \<Rightarrow> requeue_loop d rest scheduled
      | Some w \<Rightarrow>
          requeue_loop (update_delivery d (wd_id wd) (\<lambda>r. r\<lparr>wd_status := Pending\<rparr>)) rest
            (scheduled @ [wd_id wd]))"

text \<open>
  \<^verbatim>\<open>retryFailedDeliveries\<close>: the number of deliveries selected, those scheduled, and
  the store after the loop.
\<close>

definition retryFailedDeliveries :: "db \<Rightarrow> nat \<Rightarrow> nat \<times> string list \<times> db" where
  "retryFailedDeliveries d cutoff =
     (let failed = failed_deliveries d cutoff
      in (length failed, requeue_loop d failed []))"

text \<open>\<^verbatim>\<open>checkLowInventory\<close>, lines 220 to 234.\<close>

definition checkLowInventory ::
  "db \<Rightarrow> (string \<Rightarrow> string) \<Rightarrow> string \<Rightarrow> int \<Rightarrow> nat \<Rightarrow> string list \<times> db" where
  "checkLowInventory d new_id storeId available t =
     (if available \<le> LOW_INVENTORY_THRESHOLD \<and> available \<ge> 0
      then dispatchWebhooks d new_id storeId ''inventory.low'' t
      else ([], d))"

section \<open>Inventory adjustment (routes/inventory.ts)\<close>

definition adjust_reason :: "string \<Rightarrow> log_reason option" where
  "adjust_reason r =
     (if r = ''restock'' then Some Restock
      else if r = ''correction'' then Some Correction
      else if r = ''damaged'' then Some Damaged
      else if r = ''return'' then Some Return
      else None)"

text \<open>
  \<^verbatim>\<open>POST /v1/inventory/:sku/adjust\<close>, lines 97 to 151, for the store \<open>sid\<close> of the
  caller. The answer is the row read back and its available quantity. The error
  message of the guard leaves out the number the source prints in it.
\<close>

definition post_inventory_adjust ::
  "db \<Rightarrow> (string \<Rightarrow> string) \<Rightarrow> nat \<Rightarrow> string \<Rightarrow> string \<Rightarrow> int \<Rightarrow> string \<Rightarrow>
     (api_error + inventory_row \<times> int) \<times> db" where
  "post_inventory_adjust d new_id t sid s delta reason =
     (case adjust_reason reason of
        None \<Rightarrow> (Inl (invalidRequest ''reason must be restock, correction, damaged, or return''), d)
      | Some rs \<Rightarrow>
          (case inventory d (sid, s) of
             None \<Rightarrow> (Inl (notFound ''SKU not found''), d)
           | Some existing \<Rightarrow>
               if delta < 0 \<and> on_hand existing + delta < 0
               then (Inl (invalidRequest ''Cannot reduce inventory below 0. Current on_hand: ''), d)
               else
                 let d1 = d\<lparr>inventory := (inventory d)((sid, s) \<mapsto>
                            existing\<lparr>on_hand := on_hand existing + delta\<rparr>)\<rparr>;
                     d2 = insert_log d1 sid s delta rs;
                     level = existing\<lparr>on_hand := on_hand existing + delta\<rparr>;
                     available = on_hand level - reserved level;
                     d3 = snd (checkLowInventory d2 new_id sid available t)
                 in (Inr (level, available), d3)))"

section \<open>The reaper (cron.ts)\<close>

text \<open>Lines 23 to 33: the floored release of every item of an expired cart, each logged.\<close>

fun release_logged :: "db \<Rightarrow> string \<Rightarrow> cart_item list \<Rightarrow> db" where
  "release_logged d sid [] = d"
| "release_logged d sid (item # rest) =
     release_logged
       (insert_log (release_floor_stmt d sid (ci_sku item) (ci_qty item)) sid (ci_sku item)
          (- ci_qty item) Release)
       sid rest"

text \<open>Lines 19 to 37, over the carts the first query returned.\<close>

fun expired_loop :: "db \<Rightarrow> cart list \<Rightarrow> db" where
  "expired_loop d [] = d"
| "expired_loop d (c # cs) =
     expired_loop
       (update_cart (release_logged d (c_store_id c) (items_of_cart d (c_id c))) (c_id c)
          (\<lambda>c. c\<lparr>c_status := Expired\<rparr>))
       cs"

text \<open>Lines 54 to 59.\<close>

fun release_floor_all :: "db \<Rightarrow> string \<Rightarrow> cart_item list \<Rightarrow> db" where
  "release_floor_all d sid [] = d"
| "release_floor_all d sid (item # rest) =
     release_floor_all (release_floor_stmt d sid (ci_sku item) (ci_qty item)) sid rest"

text \<open>
  Lines 62 to 67: \<^verbatim>\<open>UPDATE discounts SET usage_count = MAX(usage_count - 1, 0)
  WHERE id = ?\<close>, when the cart has a discount (a non-empty identifier).
\<close>

definition release_discount_usage :: "db \<Rightarrow> string option \<Rightarrow> db" where
  "release_discount_usage d discount_id =
     (case discount_id of
        None \<Rightarrow> d
      | Some did \<Rightarrow>
          if did = [] then d
          else d\<lparr>discounts :=
                 map (\<lambda>x. if d_id x = did then x\<lparr>d_usage_count := max (d_usage_count x - 1) 0\<rparr> else x)
                   (discounts d)\<rparr>)"

text \<open>Lines 50 to 71, over the carts the second query returned.\<close>

fun abandoned_loop :: "db \<Rightarrow> cart list \<Rightarrow> db" where
  "abandoned_loop d [] = d"
| "abandoned_loop d (c # cs) =
     abandoned_loop
       (update_cart
          (release_discount_usage
             (release_floor_all d (c_store_id c) (items_of_cart d (c_id c)))
             (c_discount_id c))
          (c_id c) (\<lambda>c. c\<lparr>c_status := Expired\<rparr>))
       cs"

text \<open>The first query, lines 14 to 17.\<close>

definition expiredCarts :: "db \<Rightarrow> nat \<Rightarrow> cart list" where
  "expiredCarts d currentTime =
     filter (\<lambda>c. c_status c = Open \<and> c_expires_at c < currentTime) (carts d)"

datatype sql_error = NoSuchColumn string

text \<open>
  The second query, lines 45 to 48:
  \<^verbatim>\<open>SELECT * FROM carts WHERE status = 'checked_out' AND updated_at < ? AND
  stripe_checkout_session_id IS NOT NULL\<close>. The table of carts has no column
  \<^verbatim>\<open>updated_at\<close> (schema-d1.sql; the INSERT and the UPDATE of checkout.ts name none
  either), so SQLite refuses the statement whatever the table holds, and the query throws.
\<close>

definition abandonedCheckouts :: "db \<Rightarrow> nat \<Rightarrow> sql_error + cart list" where
  "abandonedCheckouts d oneHourAgo = Inl (NoSuchColumn ''updated_at'')"

text \<open>
  \<^verbatim>\<open>handleCron\<close>: the first sweep, the second query and its sweep, then the retry of
  failed deliveries, with the number of deliveries selected and those scheduled.
  \<open>oneHourAgo\<close> is the current time less one hour, \<open>cutoff\<close> the current time less 24
  hours. The writes of the first sweep are committed one by one, so they stay when a
  later statement throws.
\<close>

definition handleCron ::
  "db \<Rightarrow> nat \<Rightarrow> nat \<Rightarrow> nat \<Rightarrow> (sql_error + nat \<times> string list) \<times> db" where
  "handleCron d currentTime oneHourAgo cutoff =
     (let d1 = expired_loop d (expiredCarts d currentTime)
      in case abandonedCheckouts d1 oneHourAgo of
           Inl e \<Rightarrow> (Inl e, d1)
         | Inr abandoned \<Rightarrow>
             (case retryFailedDeliveries (abandoned_loop d1 abandoned) cutoff of
                (n, scheduled, d3) \<Rightarrow> (Inr (n, scheduled), d3)))"

section \<open>Stripe event ingestion (routes/webhooks.ts)\<close>

text \<open>
  What \<^verbatim>\<open>stripe.checkout.sessions.retrieve\<close> returned: the name and phone are the
  shipping details' or else the customer details' (lines 67 and 68); the amounts and
  every field of the shipping address may be null.
\<close>

record stripe_address =
  sa_line1 :: "string option"
  sa_line2 :: "string option"
  sa_city :: "string option"
  sa_state :: "string option"
  sa_postal_code :: "string option"
  sa_country :: "string option"

record stripe_session =
  ss_id :: string
  ss_name :: "string option"
  ss_phone :: "string option"
  ss_address :: "stripe_address option"
  ss_amount_subtotal :: "int option"
  ss_amount_total :: "int option"

text \<open>
  One delivery of a Stripe event to \<^verbatim>\<open>POST /v1/webhooks/stripe\<close>: the header, whether
  the body parses, the store named in its metadata, whether Stripe's library accepts the
  signature, the event it constructs (identifier, type, the cart named in the session's
  metadata), what retrieving the session gives (\<open>None\<close> when the call throws), and the
  identifiers and order number the handler would generate. A missing string is empty.
\<close>

record stripe_delivery =
  rq_signature :: string
  rq_body_parses :: bool
  rq_store_id :: string
  rq_signature_valid :: bool
  rq_event_id :: string
  rq_event_type :: string
  rq_cart_id :: string
  rq_session :: "stripe_session option"
  rq_new_customer_id :: string
  rq_new_order_id :: string
  rq_order_number :: string

definition or_zero :: "int option \<Rightarrow> int" where
  "or_zero v = (case v of None \<Rightarrow> 0 | Some n \<Rightarrow> n)"

definition coalesce :: "'a option \<Rightarrow> 'a option \<Rightarrow> 'a option" where
  "coalesce a b = (case a of None \<Rightarrow> b | Some x \<Rightarrow> Some x)"

text \<open>Lines 72 to 100: the customer of the store with the cart's email, made or updated.\<close>

definition upsert_customer ::
  "db \<Rightarrow> string \<Rightarrow> string \<Rightarrow> string option \<Rightarrow> string option \<Rightarrow> int \<Rightarrow> string \<Rightarrow> string \<times> db" where
  "upsert_customer d sid email name phone spent new_customer_id =
     (case customers d (sid, email) of
        Some existingCustomer \<Rightarrow>
          (cu_id existingCustomer,
           d\<lparr>customers := (customers d)((sid, email) \<mapsto>
                existingCustomer\<lparr>cu_name := coalesce name (cu_name existingCustomer),
                  cu_phone := coalesce phone (cu_phone existingCustomer),
                  cu_order_count := cu_order_count existingCustomer + 1,
                  cu_total_spent_cents := cu_total_spent_cents existingCustomer + spent\<rparr>)\<rparr>)
      | None \<Rightarrow>
          (new_customer_id,
           d\<lparr>customers := (customers d)((sid, email) \<mapsto>
                \<lparr>cu_id = new_customer_id, cu_name = name, cu_phone = phone, cu_order_count = 1,
                 cu_total_spent_cents = spent\<rparr>)\<rparr>))"

text \<open>
  Lines 104 to 128: the shipping address is stored for the customer unless the customer
  has a row with this first line and postal code (a null never equals a stored value).
  The first address of a customer is the default one. The columns \<^verbatim>\<open>line1\<close>,
  \<^verbatim>\<open>city\<close>, \<^verbatim>\<open>postal_code\<close> and \<^verbatim>\<open>country\<close> are NOT NULL: the insertion
  of a null there fails, and the handler ends with an exception.
\<close>

definition save_shipping_address ::
  "db \<Rightarrow> string \<Rightarrow> stripe_address \<Rightarrow> string option \<Rightarrow> string option \<Rightarrow> (api_error + unit) \<times> db" where
  "save_shipping_address d customerId a name phone =
     (if list_ex (\<lambda>r. ca_customer_id r = customerId \<and> Some (ca_line1 r) = sa_line1 a \<and>
                       Some (ca_postal_code r) = sa_postal_code a) (customer_addresses d)
      then (Inr (), d)
      else
        let isDefault =
              (if filter (\<lambda>r. ca_customer_id r = customerId) (customer_addresses d) = []
               then 1 else 0)
        in case (sa_line1 a, sa_city a, sa_postal_code a, sa_country a) of
             (Some line1, Some city, Some postal_code, Some country) \<Rightarrow>
               (Inr (),
                d\<lparr>customer_addresses := customer_addresses d @
                    [\<lparr>ca_customer_id = customerId, ca_is_default = isDefault, ca_name = name,
                      ca_line1 = line1,
                      ca_line2 = (case sa_line2 a of
                                    None \<Rightarrow> None
                                  | Some l \<Rightarrow> if l = [] then None else Some l),
                      ca_city = city, ca_state = sa_state a, ca_postal_code = postal_code,
                      ca_country = country, ca_phone = phone\<rparr>]\<rparr>)
           | _ \<Rightarrow> (Inl (ApiError ''internal'' 500 ''Internal server error''), d))"

text \<open>
  Lines 153 to 168: for every cart item an order item, the sale commit on the ledger and
  a \<^verbatim>\<open>sale\<close> log entry.
\<close>

fun commit_items :: "db \<Rightarrow> string \<Rightarrow> string \<Rightarrow> cart_item list \<Rightarrow> db" where
  "commit_items d sid orderId [] = d"
| "commit_items d sid orderId (item # rest) =
     (let d1 = d\<lparr>order_items := order_items d @
                  [\<lparr>oi_order_id = orderId, oi_sku = ci_sku item, oi_title = ci_title item,
                    oi_qty = ci_qty item, oi_unit_price_cents = ci_unit_price_cents item\<rparr>]\<rparr>;
          d2 = commit_sale_stmt d1 sid (ci_sku item) (ci_qty item);
          d3 = insert_log d2 sid (ci_sku item) (- ci_qty item) Sale
      in commit_items d3 sid orderId rest)"

text \<open>
  Lines 52 to 205, the handling of \<^verbatim>\<open>checkout.session.completed\<close>. The cart is looked
  up by its identifier alone and whatever its status. A failing retrieval of the session
  or insertion of the address leaves the handler with an exception, which the application
  answers with status 500; what was written before stays.
\<close>

definition handle_completed ::
  "db \<Rightarrow> store \<Rightarrow> stripe_delivery \<Rightarrow> (string \<Rightarrow> string) \<Rightarrow> nat \<Rightarrow> (api_error + unit) \<times> db" where
  "handle_completed d st rq new_id t =
     (if rq_cart_id rq = [] then (Inr (), d)
      else case find_cart d (rq_cart_id rq) of
        None \<Rightarrow> (Inr (), d)
      | Some c \<Rightarrow>
          let items = items_of_cart d (rq_cart_id rq)
          in case rq_session rq of
            None \<Rightarrow> (Inl (ApiError ''internal'' 500 ''Internal server error''), d)
          | Some session \<Rightarrow>
              let (customerId, d1) =
                    upsert_customer d (s_id st) (c_customer_email c) (ss_name session)
                      (ss_phone session) (or_zero (ss_amount_total session))
                      (rq_new_customer_id rq)
              in case (case ss_address session of
                         None \<Rightarrow> (Inr (), d1)
                       | Some a \<Rightarrow>
                           if customerId = [] then (Inr (), d1)
                           else save_shipping_address d1 customerId a (ss_name session)
                                  (ss_phone session)) of
                   (Inl e, d1') \<Rightarrow> (Inl e, d1')
                 | (Inr u, d1') \<Rightarrow>
                     let d2 = d1'\<lparr>orders := orders d1' @
                            [\<lparr>o_id = rq_new_order_id rq, o_store_id = s_id st,
                              o_customer_id = Some customerId, o_number = rq_order_number rq,
                              o_customer_email = c_customer_email c,
                              o_subtotal_cents = or_zero (ss_amount_subtotal session),
                              o_total_cents = or_zero (ss_amount_total session),
                              o_discount_id = None, o_discount_amount_cents = 0,
                              o_stripe_checkout_session_id = Some (ss_id session)\<rparr>]\<rparr>;
                         d3 = commit_items d2 (s_id st) (rq_new_order_id rq) items;
                         d4 = snd (dispatchWebhooks d3 new_id (s_id st) ''order.created'' t)
                     in (Inr (), d4))"

text \<open>
  \<^verbatim>\<open>POST /v1/webhooks/stripe\<close>, lines 14 to 214. The insertion into \<^verbatim>\<open>events\<close>
  fails on a Stripe event identifier that is already there
  (\<^verbatim>\<open>stripe_event_id TEXT UNIQUE\<close>).
\<close>

definition post_stripe_webhook ::
  "db \<Rightarrow> stripe_delivery \<Rightarrow> (string \<Rightarrow> string) \<Rightarrow> nat \<Rightarrow> (api_error + unit) \<times> db" where
  "post_stripe_webhook d rq new_id t =
     (if rq_signature rq = [] then (Inl (invalidRequest ''Missing stripe-signature header''), d)
      else if \<not> rq_body_parses rq then (Inl (invalidRequest ''Invalid JSON''), d)
      else if rq_store_id rq = [] then (Inl (invalidRequest ''Missing store_id in metadata''), d)
      else case stores d (rq_store_id rq) of
        None \<Rightarrow> (Inl (invalidRequest ''Store not found or webhook secret missing''), d)
      | Some st \<Rightarrow>
          if s_stripe_webhook_secret st = None \<or> s_stripe_webhook_secret st = Some []
          then (Inl (invalidRequest ''Store not found or webhook secret missing''), d)
          else if \<not> rq_signature_valid rq
          then (Inl (ApiError ''webhook_signature_invalid'' 400 []), d)
          else if list_ex (\<lambda>e. e_stripe_event_id e = rq_event_id rq) (events d)
          then (Inr (), d)
          else
            case (if rq_event_type rq = ''checkout.session.completed''
                  then handle_completed d st rq new_id t else (Inr (), d)) of
              (Inl e, d') \<Rightarrow> (Inl e, d')
            | (Inr u, d') \<Rightarrow>
                if list_ex (\<lambda>e. e_stripe_event_id e = rq_event_id rq) (events d')
                then (Inl (ApiError ''internal'' 500 ''Internal server error''), d')
                else (Inr (),
                      d'\<lparr>events := events d' @
                          [\<lparr>e_store_id = s_id st, e_stripe_event_id = rq_event_id rq,
                            e_type = rq_event_type rq\<rparr>]\<rparr>))"

section \<open>Discount usage in test orders (routes/orders.ts)\<close>

definition in_window :: "discount \<Rightarrow> nat \<Rightarrow> bool" where
  "in_window x t =
     ((case d_starts_at x of None \<Rightarrow> True | Some s \<Rightarrow> s \<le> t) \<and>
      (case d_expires_at x of None \<Rightarrow> True | Some e \<Rightarrow> e \<ge> t))"

text \<open>
  The conditional update of lines 383 to 392, with the number of rows it changed.
  A null \<^verbatim>\<open>usage_limit\<close> makes \<^verbatim>\<open>usage_count < usage_limit\<close> null, so the row
  is not updated.
\<close>

definition usage_hit :: "string \<Rightarrow> nat \<Rightarrow> discount \<Rightarrow> bool" where
  "usage_hit did t x =
     (d_id x = did \<and> d_status x = DActive \<and> in_window x t \<and>
      (case d_usage_limit x of None \<Rightarrow> False | Some l \<Rightarrow> d_usage_count x < l))"

definition reserve_usage_stmt :: "db \<Rightarrow> string \<Rightarrow> nat \<Rightarrow> nat \<times> db" where
  "reserve_usage_stmt d did t =
     (length (filter (usage_hit did t) (discounts d)),
      d\<lparr>discounts :=
          map (\<lambda>x. if usage_hit did t x then x\<lparr>d_usage_count := d_usage_count x + 1\<rparr> else x)
            (discounts d)\<rparr>)"

text \<open>
  The update of lines 398 to 405 for a discount without a limit: it writes the
  timestamp only, so the model keeps the number of rows it matched.
\<close>

definition still_valid_stmt :: "db \<Rightarrow> string \<Rightarrow> nat \<Rightarrow> nat" where
  "still_valid_stmt d did t =
     length (filter (\<lambda>x. d_id x = did \<and> d_status x = DActive \<and> in_window x t) (discounts d))"

definition lower_char :: "char \<Rightarrow> char" where
  "lower_char c =
     (let n = (of_char c :: nat) in if 65 \<le> n \<and> n \<le> 90 then char_of (n + 32) else c)"

text \<open>\<^verbatim>\<open>toLowerCase\<close> on ASCII text.\<close>

definition toLowerCase :: "string \<Rightarrow> string" where
  "toLowerCase s = map lower_char s"

text \<open>
  What \<^verbatim>\<open>await db.run(...)\<close> gives its caller for a statement that changed so many
  rows: \<^verbatim>\<open>run\<close> of db.ts executes the statement and returns nothing
  (\<^verbatim>\<open>Promise<void>\<close>; the count is what \<^verbatim>\<open>runWithChanges\<close> returns), so the
  caller holds \<^verbatim>\<open>undefined\<close>, here \<open>None\<close>.
\<close>

definition db_run_result :: "nat \<Rightarrow> nat option" where
  "db_run_result changes = None"

text \<open>
  Lines 365 to 428: the usage tracking of a discount that was applied with a positive
  amount. \<open>x\<close> is the discount row as the handler read it before the order was made.
  Reading \<^verbatim>\<open>result.changes\<close> of an undefined result throws a TypeError, which the
  application answers with status 500; the statement has run by then.
\<close>

definition track_discount_usage ::
  "db \<Rightarrow> discount \<Rightarrow> int \<Rightarrow> string \<Rightarrow> string \<Rightarrow> nat \<Rightarrow> (api_error + unit) \<times> db" where
  "track_discount_usage d x discountAmountCents orderId customer_email currentTime =
     (if (case d_usage_limit_per_customer x of
            None \<Rightarrow> False
          | Some per_customer \<Rightarrow>
              int (length (filter (\<lambda>u. du_discount_id u = d_id x \<and>
                                         du_customer_email u = toLowerCase customer_email)
                             (discount_usage d))) \<ge> per_customer)
      then (Inl (invalidRequest ''You have already used this discount''), d)
      else
        case (case d_usage_limit x of
                Some l \<Rightarrow>
                  (case reserve_usage_stmt d (d_id x) currentTime of
                     (changes, d') \<Rightarrow>
                       (case db_run_result changes of
                          None \<Rightarrow> (Inl (ApiError ''internal'' 500 ''Internal server error''), d')
                        | Some n \<Rightarrow>
                            if n = 0
                            then (Inl (invalidRequest ''Discount usage limit reached''), d')
                            else (Inr (), d')))
              | None \<Rightarrow>
                  (case db_run_result (still_valid_stmt d (d_id x) currentTime) of
                     None \<Rightarrow> (Inl (ApiError ''internal'' 500 ''Internal server error''), d)
                   | Some n \<Rightarrow>
                       if n = 0
                       then (Inl (invalidRequest ''Discount is no longer valid''), d)
                       else (Inr (), d))) of
          (Inl e, d') \<Rightarrow> (Inl e, d')
        | (Inr u, d') \<Rightarrow>
            if list_ex (\<lambda>u. du_order_id u = orderId \<and> du_discount_id u = d_id x) (discount_usage d')
            then (Inr (), d')
            else (Inr (),
                  d'\<lparr>discount_usage := discount_usage d' @
                      [\<lparr>du_discount_id = d_id x, du_order_id = orderId,
                        du_customer_email = toLowerCase customer_email,
                        du_discount_amount_cents = discountAmountCents\<rparr>]\<rparr>))"

text \<open>
  Lines 257 to 283: the items of a test order are checked against the catalog and the
  ledger, and the subtotal is summed; nothing is written.
\<close>

fun order_lines ::
  "db \<Rightarrow> string \<Rightarrow> (string \<times> int) list \<Rightarrow> int \<Rightarrow> order_item list \<Rightarrow> api_error + int \<times> order_item list" where
  "order_lines d sid [] subtotal orderItems = Inr (subtotal, orderItems)"
| "order_lines d sid ((s, q) # rest) subtotal orderItems =
     (if s = [] \<or> q = 0 \<or> q < 1 then Inl (invalidRequest ''Each item needs sku and qty > 0'')
      else case find (\<lambda>v. v_store_id v = sid \<and> v_sku v = s) (variants d) of
        None \<Rightarrow> Inl (notFound (''SKU not found: '' @ s))
      | Some v \<Rightarrow>
          let available =
            (case inventory d (sid, s) of None \<Rightarrow> 0 | Some r \<Rightarrow> on_hand r - reserved r)
          in if available < q then Inl (insufficientInventory s)
             else order_lines d sid rest (subtotal + v_price_cents v * q)
                    (orderItems @ [\<lparr>oi_order_id = [], oi_sku = s, oi_title = v_title v,
                                    oi_qty = q, oi_unit_price_cents = v_price_cents v\<rparr>]))"

text \<open>
  Lines 351 to 362: an order item per line and
  \<^verbatim>\<open>UPDATE inventory SET on_hand = on_hand - ? WHERE store_id = ? AND sku = ?\<close>.
\<close>

fun deduct_items :: "db \<Rightarrow> string \<Rightarrow> string \<Rightarrow> order_item list \<Rightarrow> db" where
  "deduct_items d sid orderId [] = d"
| "deduct_items d sid orderId (item # rest) =
     (let d1 = d\<lparr>order_items := order_items d @ [item\<lparr>oi_order_id := orderId\<rparr>]\<rparr>;
          d2 = (case inventory d1 (sid, oi_sku item) of
                  None \<Rightarrow> d1
                | Some r \<Rightarrow>
                    d1\<lparr>inventory := (inventory d1)((sid, oi_sku item) \<mapsto>
                         r\<lparr>on_hand := on_hand r - oi_qty item\<rparr>)\<rparr>)
      in deduct_items d2 sid orderId rest)"

text \<open>
  \<^verbatim>\<open>POST /v1/orders/test\<close>, lines 241 to 432. \<^verbatim>\<open>validateDiscount\<close> and
  \<^verbatim>\<open>calculateDiscount\<close> come from routes/discounts.ts, which is not among the
  sources: they are arguments, the first giving the error it throws, if any.
  \<open>discount_code\<close> is \<open>Some\<close> of the normalised code when the request names one.
  The answer is the order row.
\<close>

definition post_orders_test ::
  "db \<Rightarrow> (db \<Rightarrow> discount \<Rightarrow> int \<Rightarrow> string \<Rightarrow> api_error option) \<Rightarrow> (discount \<Rightarrow> int \<Rightarrow> int) \<Rightarrow>
     string \<Rightarrow> string \<Rightarrow> (string \<times> int) list \<Rightarrow> string option \<Rightarrow> string \<Rightarrow> string \<Rightarrow> string \<Rightarrow>
     nat \<Rightarrow> (api_error + order_row) \<times> db" where
  "post_orders_test d validateDiscount calculateDiscount sid customer_email items discount_code
     new_customer_id orderNumber orderId currentTime =
     (if customer_email = [] then (Inl (invalidRequest ''customer_email is required''), d)
      else if items = [] then (Inl (invalidRequest ''items array is required''), d)
      else case order_lines d sid items 0 [] of
        Inl e \<Rightarrow> (Inl e, d)
      | Inr (subtotal, orderItems) \<Rightarrow>
          (case (case discount_code of
                   None \<Rightarrow> Inr (None, 0)
                 | Some code \<Rightarrow>
                     (case find (\<lambda>x. d_code x = code \<and> d_store_id x = sid) (discounts d) of
                        None \<Rightarrow> Inl (notFound ''Discount code not found'')
                      | Some discountRow \<Rightarrow>
                          (case validateDiscount d discountRow subtotal customer_email of
                             Some e \<Rightarrow> Inl e
                           | None \<Rightarrow>
                               Inr (Some discountRow, calculateDiscount discountRow subtotal)))) of
             Inl e \<Rightarrow> (Inl e, d)
           | Inr (discount, discountAmountCents) \<Rightarrow>
               let totalCents = subtotal - discountAmountCents;
                   (customerId, d1) =
                     upsert_customer d sid customer_email None None totalCents new_customer_id;
                   order = \<lparr>o_id = orderId, o_store_id = sid, o_customer_id = Some customerId,
                            o_number = orderNumber, o_customer_email = customer_email,
                            o_subtotal_cents = subtotal, o_total_cents = totalCents,
                            o_discount_id = map_option d_id discount,
                            o_discount_amount_cents = discountAmountCents,
                            o_stripe_checkout_session_id = None\<rparr>;
                   d2 = d1\<lparr>orders := orders d1 @ [order]\<rparr>;
                   d3 = deduct_items d2 sid orderId orderItems
               in case discount of
                    None \<Rightarrow> (Inr order, d3)
                  | Some x \<Rightarrow>
                      if discountAmountCents > 0
                      then (case track_discount_usage d3 x discountAmountCents orderId
                                   customer_email currentTime of
                              (Inl e, d4) \<Rightarrow> (Inl e, d4)
                            | (Inr u, d4) \<Rightarrow> (Inr order, d4))
                      else (Inr order, d3)))"

section \<open>Properties of the ledger and states used in examples\<close>

text \<open>The invariant of an inventory record.\<close>

definition ledger_ok :: "inventory_row \<Rightarrow> bool" where
  "ledger_ok r = (0 \<le> reserved r \<and> reserved r \<le> on_hand r)"

definition empty_db :: db where
  "empty_db =
     \<lparr>stores = Map.empty, variants = [], inventory = Map.empty, inventory_logs = [],
      carts = [], cart_items = [], customers = Map.empty, customer_addresses = [],
      orders = [], order_items = [],
      events = [], discounts = [], discount_usage = [], webhooks = [],
      webhook_deliveries = []\<rparr>"

definition open_cart :: "string \<Rightarrow> string \<Rightarrow> nat \<Rightarrow> cart" where
  "open_cart cid sid expires =
     \<lparr>c_id = cid, c_store_id = sid, c_status = Open, c_customer_email = ''a@b.co'',
      c_currency = ''USD'', c_stripe_checkout_session_id = None, c_discount_id = None,
      c_expires_at = expires\<rparr>"

definition line :: "string \<Rightarrow> string \<Rightarrow> int \<Rightarrow> cart_item" where
  "line cid s q =
     \<lparr>ci_cart_id = cid, ci_sku = s, ci_title = s, ci_qty = q, ci_unit_price_cents = 100\<rparr>"

definition store1 :: store where
  "store1 = \<lparr>s_id = ''s1'', s_stripe_secret_key = Some ''sk'', s_stripe_webhook_secret = Some ''wh''\<rparr>"

text \<open>A cart with the same SKU on two lines, the second beyond the stock.\<close>

definition ex_dup :: db where
  "ex_dup =
     empty_db\<lparr>inventory := [(''s1'', ''A'') \<mapsto> \<lparr>on_hand = 3, reserved = 0\<rparr>],
       carts := [open_cart ''c1'' ''s1'' 100],
       cart_items := [line ''c1'' ''A'' 1, line ''c1'' ''A'' 5]\<rparr>"

text \<open>
  Cart \<open>c1\<close> is about to check out two units of \<open>A\<close>; cart \<open>c2\<close>, open and past its
  expiry at time 1000, lists two units of \<open>A\<close> as well.
\<close>

definition ex_race :: db where
  "ex_race =
     empty_db\<lparr>inventory := [(''s1'', ''A'') \<mapsto> \<lparr>on_hand = 5, reserved = 0\<rparr>],
       carts := [open_cart ''c1'' ''s1'' 9000, open_cart ''c2'' ''s1'' 100],
       cart_items := [line ''c1'' ''A'' 2, line ''c2'' ''A'' 2]\<rparr>"

text \<open>
  A store with one active subscription to \<^verbatim>\<open>order.*\<close>, and the same store after an
  \<^verbatim>\<open>order.shipped\<close> event was dispatched at time 500.
\<close>

definition ex_hook :: db where
  "ex_hook =
     empty_db\<lparr>webhooks :=
       [\<lparr>w_id = ''w1'', w_store_id = ''s1'', w_url = ''https://x.test/h'',
         w_events = [''order.*''], w_secret = ''whsec'', w_status = WActive\<rparr>]\<rparr>"

definition ex_pending :: db where
  "ex_pending = snd (dispatchWebhooks ex_hook (\<lambda>w. ''d1'') ''s1'' ''order.shipped'' 500)"

text \<open>
  The four checks of the item loop of \<^verbatim>\<open>POST /v1/carts/:cartId/items\<close> on one
  submitted item (lines 105 to 121): a SKU and a quantity of at least 1, a variant of the
  store with that SKU, which is active, and enough available stock.
\<close>

definition accepts :: "db \<Rightarrow> string \<Rightarrow> string \<times> int \<Rightarrow> bool" where
  "accepts d sid item =
     (case item of (s, q) \<Rightarrow>
        s \<noteq> [] \<and> 1 \<le> q \<and>
        (case find (\<lambda>v. v_store_id v = sid \<and> v_sku v = s) (variants d) of
           None \<Rightarrow> False
         | Some v \<Rightarrow>
             v_status v = VActive \<and>
             q \<le> (case inventory d (sid, s) of None \<Rightarrow> 0 | Some r \<Rightarrow> on_hand r - reserved r)))"

text \<open>
  Two open carts: \<open>c1\<close> holds one \<open>B\<close>, \<open>c2\<close> one \<open>A\<close>; three \<open>A\<close> and one \<open>B\<close>
  are in stock.
\<close>

definition ex_items :: db where
  "ex_items =
     empty_db\<lparr>inventory := [(''s1'', ''A'') \<mapsto> \<lparr>on_hand = 3, reserved = 0\<rparr>,
                              (''s1'', ''B'') \<mapsto> \<lparr>on_hand = 1, reserved = 0\<rparr>],
       variants := [\<lparr>v_store_id = ''s1'', v_sku = ''A'', v_title = ''Apple'', v_price_cents = 250,
                      v_status = VActive\<rparr>,
                    \<lparr>v_store_id = ''s1'', v_sku = ''B'', v_title = ''Berry'', v_price_cents = 400,
                      v_status = VActive\<rparr>],
       carts := [open_cart ''c1'' ''s1'' 100, open_cart ''c2'' ''s1'' 100],
       cart_items := [line ''c1'' ''B'' 1, line ''c2'' ''A'' 1]\<rparr>"

text \<open>What the ledger says of one SKU of one store; 0 when it has no record.\<close>

definition has_row :: "db \<Rightarrow> string \<Rightarrow> string \<Rightarrow> bool" where
  "has_row d sid s = (inventory d (sid, s) \<noteq> None)"

definition on_hand_of :: "db \<Rightarrow> string \<Rightarrow> string \<Rightarrow> int" where
  "on_hand_of d sid s = (case inventory d (sid, s) of None \<Rightarrow> 0 | Some r \<Rightarrow> on_hand r)"

definition reserved_of :: "db \<Rightarrow> string \<Rightarrow> string \<Rightarrow> int" where
  "reserved_of d sid s = (case inventory d (sid, s) of None \<Rightarrow> 0 | Some r \<Rightarrow> reserved r)"

text \<open>The units of a SKU on the lines of a cart.\<close>

definition qty_of :: "string \<Rightarrow> cart_item list \<Rightarrow> int" where
  "qty_of s items = sum_list (map ci_qty (filter (\<lambda>i. ci_sku i = s) items))"

text \<open>
  A checkout attempt: the authenticated store, the cart, the two URLs of the request and
  what Stripe answers when the handler gets to create the session.
\<close>

record attempt =
  a_store :: store
  a_cart :: string
  a_success_url :: string
  a_cancel_url :: string
  a_stripe :: stripe_create

text \<open>
  A sequence of checkout attempts, one after the other, with the units of SKU \<open>s\<close> of
  store \<open>sid\<close> on the carts of the attempts that succeeded.
\<close>

fun checkouts :: "db \<Rightarrow> string \<Rightarrow> string \<Rightarrow> attempt list \<Rightarrow> int \<times> db" where
  "checkouts d sid s [] = (0, d)"
| "checkouts d sid s (a # rest) =
     (case post_cart_checkout d (a_store a) (a_cart a) (a_success_url a) (a_cancel_url a)
             (a_stripe a) of
        (Inl e, d') \<Rightarrow> checkouts d' sid s rest
      | (Inr ok, d') \<Rightarrow>
          (case checkouts d' sid s rest of
             (n, d'') \<Rightarrow>
               ((if s_id (a_store a) = sid then qty_of s (items_of_cart d (a_cart a)) else 0) + n,
                d'')))"

text \<open>
  Two units of \<open>A\<close> in stock, none reserved; cart \<open>c1\<close> wants two, cart \<open>c2\<close> one.
\<close>

definition ex_two :: db where
  "ex_two =
     empty_db\<lparr>inventory := [(''s1'', ''A'') \<mapsto> \<lparr>on_hand = 2, reserved = 0\<rparr>],
       carts := [open_cart ''c1'' ''s1'' 100, open_cart ''c2'' ''s1'' 100],
       cart_items := [line ''c1'' ''A'' 2, line ''c2'' ''A'' 1]\<rparr>"

definition try_checkout :: "string \<Rightarrow> attempt" where
  "try_checkout cid =
     \<lparr>a_store = store1, a_cart = cid, a_success_url = ''ok'', a_cancel_url = ''no'',
      a_stripe = StripeSession ''cs'' ''url''\<rparr>"

text \<open>
  Five units of \<open>A\<close>; the open carts \<open>c1\<close> and \<open>c2\<close> hold two units each on their
  lines and expire at time 9000.
\<close>

definition ex_shop :: db where
  "ex_shop =
     empty_db\<lparr>stores := [''s1'' \<mapsto> store1],
       inventory := [(''s1'', ''A'') \<mapsto> \<lparr>on_hand = 5, reserved = 0\<rparr>],
       carts := [open_cart ''c1'' ''s1'' 9000, open_cart ''c2'' ''s1'' 9000],
       cart_items := [line ''c1'' ''A'' 2, line ''c2'' ''A'' 2]\<rparr>"

definition paid_c1 :: stripe_delivery where
  "paid_c1 =
     \<lparr>rq_signature = ''sig'', rq_body_parses = True, rq_store_id = ''s1'',
      rq_signature_valid = True, rq_event_id = ''evt_1'',
      rq_event_type = ''checkout.session.completed'', rq_cart_id = ''c1'',
      rq_session = Some \<lparr>ss_id = ''cs1'', ss_name = Some ''Ann'', ss_phone = None,
                         ss_address = Some \<lparr>sa_line1 = Some ''1 Main St'', sa_line2 = Some [],
                                             sa_city = Some ''Springfield'', sa_state = None,
                                             sa_postal_code = Some ''12345'',
                                             sa_country = Some ''US''\<rparr>,
                         ss_amount_subtotal = Some 200, ss_amount_total = Some 200\<rparr>,
      rq_new_customer_id = ''cu1'', rq_new_order_id = ''o1'', rq_order_number = ''ORD-1''\<rparr>"

text \<open>The same delivery, with a shipping address that has no city.\<close>

definition paid_c1_no_city :: stripe_delivery where
  "paid_c1_no_city =
     paid_c1\<lparr>rq_session :=
       Some \<lparr>ss_id = ''cs1'', ss_name = Some ''Ann'', ss_phone = None,
             ss_address = Some \<lparr>sa_line1 = Some ''1 Main St'', sa_line2 = None,
                                 sa_city = None, sa_state = None,
                                 sa_postal_code = Some ''12345'', sa_country = Some ''US''\<rparr>,
             ss_amount_subtotal = Some 200, ss_amount_total = Some 200\<rparr>\<rparr>"

text \<open>
  The states the store goes through: \<open>c1\<close> checks out, \<open>c2\<close> checks out, the payment of
  \<open>c1\<close> is ingested.
\<close>

definition ex_checked_out1 :: db where
  "ex_checked_out1 =
     ex_shop\<lparr>inventory := [(''s1'', ''A'') \<mapsto> \<lparr>on_hand = 5, reserved = 2\<rparr>],
       carts := [(open_cart ''c1'' ''s1'' 9000)\<lparr>c_status := CheckedOut,
                    c_stripe_checkout_session_id := Some ''cs1''\<rparr>,
                 open_cart ''c2'' ''s1'' 9000]\<rparr>"

definition ex_checked_out :: db where
  "ex_checked_out =
     ex_shop\<lparr>inventory := [(''s1'', ''A'') \<mapsto> \<lparr>on_hand = 5, reserved = 4\<rparr>],
       carts := [(open_cart ''c1'' ''s1'' 9000)\<lparr>c_status := CheckedOut,
                    c_stripe_checkout_session_id := Some ''cs1''\<rparr>,
                 (open_cart ''c2'' ''s1'' 9000)\<lparr>c_status := CheckedOut,
                    c_stripe_checkout_session_id := Some ''cs2''\<rparr>]\<rparr>"

definition ex_paid :: db where
  "ex_paid =
     ex_checked_out\<lparr>inventory := [(''s1'', ''A'') \<mapsto> \<lparr>on_hand = 3, reserved = 2\<rparr>],
       inventory_logs := [\<lparr>log_store_id = ''s1'', log_sku = ''A'', log_delta = - 2,
                            log_reason = Sale\<rparr>],
       customers := [(''s1'', ''a@b.co'') \<mapsto>
                       \<lparr>cu_id = ''cu1'', cu_name = Some ''Ann'', cu_phone = None,
                        cu_order_count = 1, cu_total_spent_cents = 200\<rparr>],
       customer_addresses := [\<lparr>ca_customer_id = ''cu1'', ca_is_default = 1,
                                ca_name = Some ''Ann'', ca_line1 = ''1 Main St'', ca_line2 = None,
                                ca_city = ''Springfield'', ca_state = None,
                                ca_postal_code = ''12345'', ca_country = ''US'',
                                ca_phone = None\<rparr>],
       orders := [\<lparr>o_id = ''o1'', o_store_id = ''s1'', o_customer_id = Some ''cu1'',
                    o_number = ''ORD-1'', o_customer_email = ''a@b.co'', o_subtotal_cents = 200,
                    o_total_cents = 200, o_discount_id = None, o_discount_amount_cents = 0,
                    o_stripe_checkout_session_id = Some ''cs1''\<rparr>],
       order_items := [\<lparr>oi_order_id = ''o1'', oi_sku = ''A'', oi_title = ''A'', oi_qty = 2,
                         oi_unit_price_cents = 100\<rparr>],
       events := [\<lparr>e_store_id = ''s1'', e_stripe_event_id = ''evt_1'',
                    e_type = ''checkout.session.completed''\<rparr>]\<rparr>"

text \<open>
  The store after both checkouts and a delivery of the payment of \<open>c1\<close> whose address
  has no city: the customer is written, nothing else.
\<close>

definition ex_address_failed :: db where
  "ex_address_failed =
     ex_checked_out\<lparr>customers := [(''s1'', ''a@b.co'') \<mapsto>
                       \<lparr>cu_id = ''cu1'', cu_name = Some ''Ann'', cu_phone = None,
                        cu_order_count = 1, cu_total_spent_cents = 200\<rparr>]\<rparr>"

text \<open>
  A discount with limit 1 that has been used once; ten units of \<open>A\<close> at 1000 cents.
\<close>

definition ex_disc :: db where
  "ex_disc =
     empty_db\<lparr>variants := [\<lparr>v_store_id = ''s1'', v_sku = ''A'', v_title = ''Apple'',
                              v_price_cents = 1000, v_status = VActive\<rparr>],
       inventory := [(''s1'', ''A'') \<mapsto> \<lparr>on_hand = 10, reserved = 0\<rparr>],
       discounts := [\<lparr>d_id = ''D1'', d_store_id = ''s1'', d_code = ''SAVE'', d_status = DActive,
                       d_starts_at = None, d_expires_at = None, d_usage_limit = Some 1,
                       d_usage_limit_per_customer = None, d_usage_count = 1\<rparr>]\<rparr>"

definition ex_disc_after :: db where
  "ex_disc_after =
     ex_disc\<lparr>inventory := [(''s1'', ''A'') \<mapsto> \<lparr>on_hand = 9, reserved = 0\<rparr>],
       customers := [(''s1'', ''a@b.co'') \<mapsto>
                       \<lparr>cu_id = ''cu1'', cu_name = None, cu_phone = None, cu_order_count = 1,
                        cu_total_spent_cents = 900\<rparr>],
       orders := [\<lparr>o_id = ''o2'', o_store_id = ''s1'', o_customer_id = Some ''cu1'',
                    o_number = ''ORD-2'', o_customer_email = ''a@b.co'', o_subtotal_cents = 1000,
                    o_total_cents = 900, o_discount_id = Some ''D1'',
                    o_discount_amount_cents = 100, o_stripe_checkout_session_id = None\<rparr>],
       order_items := [\<lparr>oi_order_id = ''o2'', oi_sku = ''A'', oi_title = ''Apple'', oi_qty = 1,
                         oi_unit_price_cents = 1000\<rparr>]\<rparr>"

text \<open>The same store with the discount not used yet.\<close>

definition ex_disc_unused :: db where
  "ex_disc_unused =
     ex_disc\<lparr>discounts := [\<lparr>d_id = ''D1'', d_store_id = ''s1'', d_code = ''SAVE'',
                              d_status = DActive, d_starts_at = None, d_expires_at = None,
                              d_usage_limit = Some 1, d_usage_limit_per_customer = None,
                              d_usage_count = 0\<rparr>]\<rparr>"

text \<open>The usage counter of a discount is within its limit, if it has one.\<close>

definition usage_within_limit :: "discount \<Rightarrow> bool" where
  "usage_within_limit x =
     (case d_usage_limit x of None \<Rightarrow> True | Some l \<Rightarrow> d_usage_count x \<le> l)"

text \<open>
  Usage reservations on one discount, one after the other at the given times, with the
  number of them that changed a row.
\<close>

fun reserve_usage_attempts :: "db \<Rightarrow> string \<Rightarrow> nat list \<Rightarrow> nat \<times> db" where
  "reserve_usage_attempts d did [] = (0, d)"
| "reserve_usage_attempts d did (t # ts) =
     (case reserve_usage_stmt d did t of
        (changes, d') \<Rightarrow>
          (case reserve_usage_attempts d' did ts of
             (n, d'') \<Rightarrow> ((if changes = 0 then 0 else 1) + n, d'')))"

text \<open>A discount with limit 2 that has not been used.\<close>

definition ex_disc_fresh :: db where
  "ex_disc_fresh =
     empty_db\<lparr>discounts :=
       [\<lparr>d_id = ''D1'', d_store_id = ''s1'', d_code = ''SAVE'', d_status = DActive,
         d_starts_at = None, d_expires_at = Some 100, d_usage_limit = Some 2,
         d_usage_limit_per_customer = None, d_usage_count = 0\<rparr>]\<rparr>"

text \<open>Five units of \<open>A\<close>, three of them reserved.\<close>

definition ex_adj :: db where
  "ex_adj = empty_db\<lparr>inventory := [(''s1'', ''A'') \<mapsto> \<lparr>on_hand = 5, reserved = 3\<rparr>]\<rparr>"

text \<open>An identifier source that gives every delivery the same identifier.\<close>

definition one_id :: "string \<Rightarrow> string" where
  "one_id w = ''d1''"

section \<open>Failed checkout and the rollback\<close>

text \<open>
  Claim C3 says that a checkout attempt that fails on one item leaves the ledger as it
  was, also for a cart with the same SKU on more than one line. The rollback stops at the
  first line whose SKU is the failing one's, so with stock 3 of \<open>A\<close> and the lines
  \<open>A \<times> 1\<close>, \<open>A \<times> 5\<close> the first reservation is made, the second fails, nothing is
  released, and the attempt ends with the insufficient-inventory error and one unit of
  \<open>A\<close> still reserved.
\<close>

theorem checkout_rollback_keeps_duplicate_sku_hold:
  "inventory ex_dup (''s1'', ''A'') = Some \<lparr>on_hand = 3, reserved = 0\<rparr> \<and>
   post_cart_checkout ex_dup store1 ''c1'' ''ok'' ''no'' (StripeSession ''cs'' ''url'') =
     (Inl (insufficientInventory ''A''),
      ex_dup\<lparr>inventory := [(''s1'', ''A'') \<mapsto> \<lparr>on_hand = 3, reserved = 1\<rparr>]\<rparr>)"
  by (simp add: ex_dup_def empty_db_def open_cart_def line_def store1_def
      post_cart_checkout_def items_of_cart_def reserve_stmt_def release_stmt_def)

section \<open>Release and the floor at zero\<close>

text \<open>
  Claim C9 says that every path that releases a reservation floors \<open>reserved\<close> at
  zero. The reaper does; the two releases of the checkout route subtract without a floor.
  Here \<open>c1\<close> reserves two units, the reaper then expires \<open>c2\<close> and releases two units
  that \<open>c2\<close> never held, and the Stripe call of \<open>c1\<close> fails: its release leaves
  \<open>reserved = -2\<close>. On one record with one unit reserved, releasing three gives \<open>-2\<close>
  through the checkout's statement and \<open>0\<close> through the reaper's.
\<close>

theorem checkout_release_goes_below_zero:
  "inventory (snd (reserve_loop ex_race ''s1'' [line ''c1'' ''A'' 2] [line ''c1'' ''A'' 2]))
     (''s1'', ''A'') = Some \<lparr>on_hand = 5, reserved = 2\<rparr> \<and>
   inventory
     (snd (handleCron
        (snd (reserve_loop ex_race ''s1'' [line ''c1'' ''A'' 2] [line ''c1'' ''A'' 2]))
        1000 0 0))
     (''s1'', ''A'') = Some \<lparr>on_hand = 5, reserved = 0\<rparr> \<and>
   inventory
     (release_all
        (snd (handleCron
           (snd (reserve_loop ex_race ''s1'' [line ''c1'' ''A'' 2] [line ''c1'' ''A'' 2]))
           1000 0 0))
        ''s1'' [line ''c1'' ''A'' 2])
     (''s1'', ''A'') = Some \<lparr>on_hand = 5, reserved = - 2\<rparr> \<and>
   inventory
     (release_stmt (empty_db\<lparr>inventory := [(''s1'', ''A'') \<mapsto> \<lparr>on_hand = 5, reserved = 1\<rparr>]\<rparr>)
        ''s1'' ''A'' 3)
     (''s1'', ''A'') = Some \<lparr>on_hand = 5, reserved = - 2\<rparr> \<and>
   inventory
     (release_floor_stmt (empty_db\<lparr>inventory := [(''s1'', ''A'') \<mapsto> \<lparr>on_hand = 5, reserved = 1\<rparr>]\<rparr>)
        ''s1'' ''A'' 3)
     (''s1'', ''A'') = Some \<lparr>on_hand = 5, reserved = 0\<rparr>"
  by code_simp

section \<open>Outbound deliveries\<close>

text \<open>
  Claim C7 says that a delivery answered with a 4xx status other than 429 is failed at
  once with one attempt and is never retried automatically, neither by the attempt loop
  nor by the periodic sweep. The loop stops, but the sweep selects every failed delivery
  with fewer than three attempts: the delivery answered 410 is selected, put back to
  pending and scheduled again.
\<close>

theorem sweep_requeues_delivery_rejected_with_410:
  "webhook_deliveries (fst (deliverWebhook ex_pending ''d1'' (\<lambda>n. Http 410))) =
     [\<lparr>wd_id = ''d1'', wd_webhook_id = ''w1'', wd_event_type = ''order.shipped'',
       wd_status = Failed, wd_attempts = 1, wd_response_code = Some 410,
       wd_created_at = 500\<rparr>] \<and>
   snd (deliverWebhook ex_pending ''d1'' (\<lambda>n. Http 410)) = [] \<and>
   fst (retryFailedDeliveries (fst (deliverWebhook ex_pending ''d1'' (\<lambda>n. Http 410))) 100) = 1 \<and>
   fst (snd (retryFailedDeliveries (fst (deliverWebhook ex_pending ''d1'' (\<lambda>n. Http 410))) 100)) =
     [''d1''] \<and>
   webhook_deliveries
     (snd (snd (retryFailedDeliveries (fst (deliverWebhook ex_pending ''d1'' (\<lambda>n. Http 410))) 100))) =
     [\<lparr>wd_id = ''d1'', wd_webhook_id = ''w1'', wd_event_type = ''order.shipped'',
       wd_status = Pending, wd_attempts = 1, wd_response_code = Some 410,
       wd_created_at = 500\<rparr>]"
  by code_simp

lemma update_delivery_rows:
  assumes "wd \<in> set (webhook_deliveries (update_delivery d did f))" and "wd_id wd = did"
    and "\<And>r. wd_id (f r) = wd_id r"
  shows "\<exists>r \<in> set (webhook_deliveries d). wd = f r"
proof -
  from assms(1) obtain r where r: "r \<in> set (webhook_deliveries d)"
    and wd: "wd = (if wd_id r = did then f r else r)"
    by (auto simp: update_delivery_def)
  show ?thesis
  proof (cases "wd_id r = did")
    case True
    with r wd show ?thesis by auto
  next
    case False
    with wd assms(2) show ?thesis by simp
  qed
qed


lemma requeue_loop_ids:
  "set (fst (requeue_loop d xs acc)) \<subseteq> set acc \<union> wd_id ` set xs"
proof (induction xs arbitrary: d acc)
  case Nil
  then show ?case by simp
next
  case (Cons x xs)
  show ?case
  proof (cases "find (\<lambda>w. w_id w = wd_webhook_id x) (webhooks d)")
    case None
    then show ?thesis using Cons.IH [of d acc] by auto
  next
    case (Some w)
    then show ?thesis
      using Cons.IH [of "update_delivery d (wd_id x) (\<lambda>r. r\<lparr>wd_status := Pending\<rparr>)"
          "acc @ [wd_id x]"]
      by auto
  qed
qed

lemma failed_deliveries_attempts:
  "wd \<in> set (failed_deliveries d cutoff) \<Longrightarrow>
     wd \<in> set (webhook_deliveries d) \<and> wd_status wd = Failed \<and> wd_attempts wd < 3"
  by (auto simp: failed_deliveries_def MAX_ATTEMPTS_def dest: in_set_takeD)

lemma deliver_500:
  assumes "fetch 1 = Http 500" "fetch 2 = Http 500" "fetch 3 = Http 500"
  shows "deliverWebhook d did fetch =
     (update_delivery d did
        (\<lambda>r. r\<lparr>wd_attempts := 3, wd_status := Failed, wd_response_code := Some 500\<rparr>),
      [2000, 4000])"
proof -
  have f1: "fetch (Suc 0) = Http 500" using assms(1) by simp
  have f2: "fetch (Suc (Suc 0)) = Http 500" using assms(2) by (simp add: numeral_2_eq_2)
  have f3: "fetch (Suc (Suc (Suc 0))) = Http 500" using assms(3) by (simp add: numeral_3_eq_3)
  have "deliver_loop d did fetch (Suc 0) None [] =
     (update_delivery d did
        (\<lambda>r. r\<lparr>wd_attempts := 3, wd_status := Failed, wd_response_code := Some 500\<rparr>),
      [2000, 4000])"
    apply (subst deliver_loop.simps)
    apply (simp add: MAX_ATTEMPTS_def f1 Let_def)
    apply (subst deliver_loop.simps)
    apply (simp add: MAX_ATTEMPTS_def f2 Let_def)
    apply (subst deliver_loop.simps)
    apply (simp add: MAX_ATTEMPTS_def f3 Let_def)
    apply (auto simp add: MAX_ATTEMPTS_def update_delivery_def)
    done
  then show ?thesis by (simp add: deliverWebhook_def)
qed

text \<open>
  Claim C8: when the endpoint answers 500 on each of the three attempts, the loop waits
  2000 ms after the first and 4000 ms after the second attempt, the delivery ends failed
  with three attempts and status code 500, and the sweep of
  \<^verbatim>\<open>retryFailedDeliveries\<close> neither selects nor schedules it, whatever its cutoff.
\<close>

theorem deliver_500_fails_after_three_attempts:
  assumes "fetch 1 = Http 500" and "fetch 2 = Http 500" and "fetch 3 = Http 500"
  shows "deliverWebhook d did fetch =
           (update_delivery d did
              (\<lambda>r. r\<lparr>wd_attempts := 3, wd_status := Failed, wd_response_code := Some 500\<rparr>),
            [2000, 4000]) \<and>
         did \<notin> wd_id ` set (failed_deliveries (fst (deliverWebhook d did fetch)) cutoff) \<and>
         did \<notin> set (fst (snd (retryFailedDeliveries (fst (deliverWebhook d did fetch)) cutoff)))"
proof -
  let ?d' = "update_delivery d did
     (\<lambda>r. r\<lparr>wd_attempts := 3, wd_status := Failed, wd_response_code := Some 500\<rparr>)"
  have run: "deliverWebhook d did fetch = (?d', [2000, 4000])"
    using assms by (rule deliver_500)
  have sel: "did \<notin> wd_id ` set (failed_deliveries ?d' cutoff)"
  proof
    assume "did \<in> wd_id ` set (failed_deliveries ?d' cutoff)"
    then obtain wd where wd: "wd \<in> set (failed_deliveries ?d' cutoff)" and "wd_id wd = did"
      by auto
    from failed_deliveries_attempts [OF wd]
    have "wd \<in> set (webhook_deliveries ?d')" and "wd_attempts wd < 3" by simp_all
    from update_delivery_rows [OF this(1) \<open>wd_id wd = did\<close>] \<open>wd_attempts wd < 3\<close>
    show False by auto
  qed
  have "set (fst (snd (retryFailedDeliveries ?d' cutoff))) \<subseteq>
          wd_id ` set (failed_deliveries ?d' cutoff)"
    using requeue_loop_ids [of ?d' "failed_deliveries ?d' cutoff" "[]"]
    by (simp add: retryFailedDeliveries_def Let_def)
  with sel have "did \<notin> set (fst (snd (retryFailedDeliveries ?d' cutoff)))" by blast
  with run sel show ?thesis by simp
qed


theorem deliver_500_fails_after_three_attempts_witness:
  "webhook_deliveries (fst (deliverWebhook ex_pending ''d1'' (\<lambda>n. Http 500))) =
     [\<lparr>wd_id = ''d1'', wd_webhook_id = ''w1'', wd_event_type = ''order.shipped'',
       wd_status = Failed, wd_attempts = 3, wd_response_code = Some 500,
       wd_created_at = 500\<rparr>] \<and>
   snd (deliverWebhook ex_pending ''d1'' (\<lambda>n. Http 500)) = [2000, 4000] \<and>
   ''d1'' \<notin> set (fst (snd (retryFailedDeliveries
       (fst (deliverWebhook ex_pending ''d1'' (\<lambda>n. Http 500))) 100)))"
proof -
  have rows: "webhook_deliveries ex_pending =
     [\<lparr>wd_id = ''d1'', wd_webhook_id = ''w1'', wd_event_type = ''order.shipped'',
       wd_status = Pending, wd_attempts = 0, wd_response_code = None, wd_created_at = 500\<rparr>]"
    by code_simp
  note t = deliver_500_fails_after_three_attempts [of "\<lambda>n. Http 500" ex_pending "''d1''" 100]
  from t have run: "deliverWebhook ex_pending ''d1'' (\<lambda>n. Http 500) =
      (update_delivery ex_pending ''d1''
         (\<lambda>r. r\<lparr>wd_attempts := 3, wd_status := Failed, wd_response_code := Some 500\<rparr>),
       [2000, 4000])"
    by blast
  from t have out: "''d1'' \<notin> set (fst (snd (retryFailedDeliveries
       (fst (deliverWebhook ex_pending ''d1'' (\<lambda>n. Http 500))) 100)))"
    by blast
  have "webhook_deliveries (fst (deliverWebhook ex_pending ''d1'' (\<lambda>n. Http 500))) =
     [\<lparr>wd_id = ''d1'', wd_webhook_id = ''w1'', wd_event_type = ''order.shipped'',
       wd_status = Failed, wd_attempts = 3, wd_response_code = Some 500,
       wd_created_at = 500\<rparr>]"
    unfolding run by (simp add: update_delivery_def rows)
  moreover have "snd (deliverWebhook ex_pending ''d1'' (\<lambda>n. Http 500)) = [2000, 4000]"
    unfolding run by simp
  ultimately show ?thesis using out by blast
qed

section \<open>Adding items to a cart\<close>

lemma accepts_cong:
  "variants d2 = variants d \<Longrightarrow> inventory d2 = inventory d \<Longrightarrow> accepts d2 sid = accepts d sid"
  by (rule ext) (simp add: accepts_def split: prod.splits option.splits)

lemma add_items_effect:
  "add_items d sid cid items acc = (r, d') \<Longrightarrow>
     \<exists>ins. d' = d\<lparr>cart_items := cart_items d @ ins\<rparr> \<and>
           (\<forall>i \<in> set ins. ci_cart_id i = cid) \<and>
           map (\<lambda>i. (ci_sku i, ci_qty i)) ins = takeWhile (accepts d sid) items \<and>
           (case r of Inr newItems \<Rightarrow> newItems = acc @ ins \<and> list_all (accepts d sid) items
                    | Inl e \<Rightarrow> \<not> list_all (accepts d sid) items)"
proof (induction items arbitrary: d acc)
  case Nil
  then show ?case by auto
next
  case (Cons it items)
  obtain s q where it: "it = (s, q)" by (cases it)
  show ?case
  proof (cases "accepts d sid (s, q)")
    case False
    then have "d' = d" and "\<exists>e. r = Inl e"
      using Cons.prems
      by (auto simp: it accepts_def Let_def split: option.splits if_splits)
    then show ?thesis using False by (auto simp: it)
  next
    case True
    then obtain v where v: "find (\<lambda>v. v_store_id v = sid \<and> v_sku v = s) (variants d) = Some v"
      by (auto simp: accepts_def split: option.splits)
    define item where "item = \<lparr>ci_cart_id = cid, ci_sku = s, ci_title = v_title v, ci_qty = q,
                              ci_unit_price_cents = v_price_cents v\<rparr>"
    define d2 where "d2 = d\<lparr>cart_items := cart_items d @ [item]\<rparr>"
    have rec: "add_items d2 sid cid items (acc @ [item]) = (r, d')"
      using Cons.prems True v
      by (auto simp: it accepts_def Let_def item_def d2_def split: option.splits if_splits)
    have same: "accepts d2 sid = accepts d sid"
      by (rule accepts_cong) (simp_all add: d2_def)
    from Cons.IH [OF rec] obtain ins where
      ins: "d' = d2\<lparr>cart_items := cart_items d2 @ ins\<rparr>"
        "\<forall>i \<in> set ins. ci_cart_id i = cid"
        "map (\<lambda>i. (ci_sku i, ci_qty i)) ins = takeWhile (accepts d sid) items"
        "(case r of Inr newItems \<Rightarrow> newItems = (acc @ [item]) @ ins \<and> list_all (accepts d sid) items
                    | Inl e \<Rightarrow> \<not> list_all (accepts d sid) items)"
      unfolding same by blast
    show ?thesis
      apply (rule exI [of _ "item # ins"])
      using ins True
      apply (auto simp: it d2_def item_def split: sum.splits)
      done
  qed
qed

text \<open>
  Claim C10: on an open cart of the store and a non-empty submission, the handler ends
  with the rows of all other carts untouched and, for this cart, exactly the rows it
  inserted, which are the submitted items up to the first one it rejects. It answers
  with these rows when it rejects none, and with an error otherwise; the rows the cart
  held before are gone in both cases.
\<close>

theorem post_cart_items_replaces:
  assumes "find (\<lambda>c. c_id c = cid \<and> c_store_id c = sid) (carts d) = Some c"
    and "c_status c = Open" and "items \<noteq> []"
    and "post_cart_items d sid cid items = (r, d')"
  shows "\<exists>ins. d' = d\<lparr>cart_items := filter (\<lambda>i. ci_cart_id i \<noteq> cid) (cart_items d) @ ins\<rparr> \<and>
           items_of_cart d' cid = ins \<and>
           map (\<lambda>i. (ci_sku i, ci_qty i)) ins = takeWhile (accepts d sid) items \<and>
           (case r of Inr newItems \<Rightarrow> newItems = ins \<and> list_all (accepts d sid) items
                    | Inl e \<Rightarrow> \<not> list_all (accepts d sid) items)"
proof -
  define d0 where "d0 = d\<lparr>cart_items := filter (\<lambda>i. ci_cart_id i \<noteq> cid) (cart_items d)\<rparr>"
  have run: "add_items d0 sid cid items [] = (r, d')"
    using assms by (simp add: post_cart_items_def d0_def)
  have same: "accepts d0 sid = accepts d sid"
    by (rule accepts_cong) (simp_all add: d0_def)
  from add_items_effect [OF run] obtain ins where
    ins: "d' = d0\<lparr>cart_items := cart_items d0 @ ins\<rparr>"
      "\<forall>i \<in> set ins. ci_cart_id i = cid"
      "map (\<lambda>i. (ci_sku i, ci_qty i)) ins = takeWhile (accepts d sid) items"
      "(case r of Inr newItems \<Rightarrow> newItems = [] @ ins \<and> list_all (accepts d sid) items
                  | Inl e \<Rightarrow> \<not> list_all (accepts d sid) items)"
    unfolding same by blast
  have "filter (\<lambda>i. ci_cart_id i = cid) ins = ins"
    using ins(2) by (simp add: filter_id_conv)
  then have "items_of_cart d' cid = ins"
    by (simp add: ins(1) d0_def items_of_cart_def)
  with ins show ?thesis by (auto simp: d0_def split: sum.splits)
qed

theorem post_cart_items_replaces_witness:
  "map (\<lambda>i. (ci_sku i, ci_qty i))
     (items_of_cart (snd (post_cart_items ex_items ''s1'' ''c1'' [(''A'', 2), (''B'', 5), (''A'', 1)])) ''c1'') =
     [(''A'', 2)] \<and>
   (\<exists>e. fst (post_cart_items ex_items ''s1'' ''c1'' [(''A'', 2), (''B'', 5), (''A'', 1)]) = Inl e) \<and>
   items_of_cart ex_items ''c1'' = [line ''c1'' ''B'' 1]"
proof -
  let ?its = "[(''A'', 2), (''B'', 5), (''A'', 1 :: int)]"
  obtain r d' where run: "post_cart_items ex_items ''s1'' ''c1'' ?its = (r, d')"
    by (cases "post_cart_items ex_items ''s1'' ''c1'' ?its")
  have c: "find (\<lambda>c. c_id c = ''c1'' \<and> c_store_id c = ''s1'') (carts ex_items) =
             Some (open_cart ''c1'' ''s1'' 100)"
    by (simp add: ex_items_def empty_db_def open_cart_def)
  have o: "c_status (open_cart ''c1'' ''s1'' 100) = Open" by (simp add: open_cart_def)
  have tw: "takeWhile (accepts ex_items ''s1'') ?its = [(''A'', 2)]"
    and la: "\<not> list_all (accepts ex_items ''s1'') ?its"
    by (simp_all add: accepts_def ex_items_def empty_db_def)
  from post_cart_items_replaces [OF c o _ run] obtain ins where
    "items_of_cart d' ''c1'' = ins"
    "map (\<lambda>i. (ci_sku i, ci_qty i)) ins = takeWhile (accepts ex_items ''s1'') ?its"
    "(case r of Inr newItems \<Rightarrow> newItems = ins \<and> list_all (accepts ex_items ''s1'') ?its
              | Inl e \<Rightarrow> \<not> list_all (accepts ex_items ''s1'') ?its)"
    by auto
  with tw la have "map (\<lambda>i. (ci_sku i, ci_qty i)) (items_of_cart d' ''c1'') = [(''A'', 2)]"
    and "\<exists>e. r = Inl e"
    by (auto split: sum.splits)
  moreover have "items_of_cart ex_items ''c1'' = [line ''c1'' ''B'' 1]"
    by (simp add: items_of_cart_def ex_items_def empty_db_def line_def)
  ultimately show ?thesis by (simp add: run)
qed

section \<open>Reservation and overselling\<close>

lemma reserve_stmt_has_row [simp]:
  "has_row (snd (reserve_stmt d st x q)) sid s = has_row d sid s"
  by (simp add: reserve_stmt_def has_row_def split: option.splits)

lemma reserve_stmt_on_hand [simp]:
  "on_hand_of (snd (reserve_stmt d st x q)) sid s = on_hand_of d sid s"
  by (simp add: reserve_stmt_def on_hand_of_def split: option.splits)

lemma reserve_stmt_reserved:
  "reserved_of (snd (reserve_stmt d st x q)) sid s =
     reserved_of d sid s + (if fst (reserve_stmt d st x q) \<noteq> 0 \<and> st = sid \<and> x = s then q else 0)"
  by (auto simp add: reserve_stmt_def reserved_of_def split: option.splits)

lemma reserve_stmt_bound:
  "reserved_of d sid s \<le> on_hand_of d sid s \<Longrightarrow>
     reserved_of (snd (reserve_stmt d st x q)) sid s \<le> on_hand_of d sid s"
  by (auto simp add: reserve_stmt_def reserved_of_def on_hand_of_def split: option.splits)

lemma reserve_stmt_tables [simp]:
  "carts (snd (reserve_stmt d st x q)) = carts d"
  "cart_items (snd (reserve_stmt d st x q)) = cart_items d"
  by (simp_all add: reserve_stmt_def split: option.splits)

lemma release_stmt_has_row [simp]:
  "has_row (release_stmt d st x q) sid s = has_row d sid s"
  by (simp add: release_stmt_def has_row_def split: option.splits)

lemma release_stmt_on_hand [simp]:
  "on_hand_of (release_stmt d st x q) sid s = on_hand_of d sid s"
  by (simp add: release_stmt_def on_hand_of_def split: option.splits)

lemma release_stmt_reserved:
  "has_row d sid s \<Longrightarrow>
     reserved_of (release_stmt d st x q) sid s =
       reserved_of d sid s - (if st = sid \<and> x = s then q else 0)"
  by (auto simp add: release_stmt_def reserved_of_def has_row_def split: option.splits)

lemma release_stmt_tables [simp]:
  "carts (release_stmt d st x q) = carts d"
  "cart_items (release_stmt d st x q) = cart_items d"
  by (simp_all add: release_stmt_def split: option.splits)

lemma qty_of_Nil [simp]: "qty_of s [] = 0"
  by (simp add: qty_of_def)

lemma qty_of_Cons [simp]:
  "qty_of s (x # xs) = (if ci_sku x = s then ci_qty x else 0) + qty_of s xs"
  by (simp add: qty_of_def)

lemma release_all_key:
  "has_row d sid s \<Longrightarrow>
     has_row (release_all d st xs) sid s \<and>
     on_hand_of (release_all d st xs) sid s = on_hand_of d sid s \<and>
     reserved_of (release_all d st xs) sid s =
       reserved_of d sid s - (if st = sid then qty_of s xs else 0) \<and>
     carts (release_all d st xs) = carts d \<and>
     cart_items (release_all d st xs) = cart_items d"
proof (induction xs arbitrary: d)
  case Nil
  then show ?case by simp
next
  case (Cons x xs)
  have "has_row (release_stmt d st (ci_sku x) (ci_qty x)) sid s" using Cons.prems by simp
  from Cons.IH [OF this] show ?case
    using Cons.prems by (simp add: release_stmt_reserved)
qed

lemma rollback_release_all:
  "rollback d st f items = release_all d st (takeWhile (\<lambda>p. ci_sku p \<noteq> f) items)"
  by (induction items arbitrary: d) simp_all

lemma qty_of_append [simp]: "qty_of s (xs @ ys) = qty_of s xs + qty_of s ys"
  by (simp add: qty_of_def)

lemma qty_of_nonneg: "\<forall>i \<in> set xs. 0 \<le> ci_qty i \<Longrightarrow> 0 \<le> qty_of s xs"
  by (induction xs) simp_all

lemma qty_of_takeWhile:
  "\<forall>i \<in> set xs. 0 \<le> ci_qty i \<Longrightarrow> qty_of s (takeWhile P xs) \<le> qty_of s xs"
proof -
  assume nn: "\<forall>i \<in> set xs. 0 \<le> ci_qty i"
  have "qty_of s xs = qty_of s (takeWhile P xs) + qty_of s (dropWhile P xs)"
    by (metis qty_of_append takeWhile_dropWhile_id)
  moreover have "0 \<le> qty_of s (dropWhile P xs)"
    using nn by (intro qty_of_nonneg) (auto dest: set_dropWhileD)
  ultimately show ?thesis by simp
qed

lemma reserve_loop_key:
  assumes "has_row d sid s" and "\<forall>i \<in> set (done @ rest). 0 \<le> ci_qty i"
    and "reserved_of d sid s \<le> on_hand_of d sid s"
    and "reserve_loop d st (done @ rest) rest = (r, d')"
  shows "has_row d' sid s \<and> on_hand_of d' sid s = on_hand_of d sid s \<and>
         reserved_of d' sid s \<le> on_hand_of d sid s \<and>
         carts d' = carts d \<and> cart_items d' = cart_items d \<and>
         (case r of
            Inr u \<Rightarrow> reserved_of d' sid s =
                       reserved_of d sid s + (if st = sid then qty_of s rest else 0)
          | Inl e \<Rightarrow> reserved_of d sid s - (if st = sid then qty_of s done else 0)
                       \<le> reserved_of d' sid s)"
  using assms
proof (induction rest arbitrary: d "done")
  case Nil
  then show ?case by auto
next
  case (Cons item rest)
  obtain c d1 where st1: "reserve_stmt d st (ci_sku item) (ci_qty item) = (c, d1)"
    by (cases "reserve_stmt d st (ci_sku item) (ci_qty item)")
  have d1: "has_row d1 sid s" "on_hand_of d1 sid s = on_hand_of d sid s"
    "reserved_of d1 sid s \<le> on_hand_of d sid s" "carts d1 = carts d" "cart_items d1 = cart_items d"
    "reserved_of d1 sid s =
       reserved_of d sid s + (if c \<noteq> 0 \<and> st = sid \<and> ci_sku item = s then ci_qty item else 0)"
    using Cons.prems(1,3) reserve_stmt_has_row [of d st "ci_sku item" "ci_qty item" sid s]
      reserve_stmt_on_hand [of d st "ci_sku item" "ci_qty item" sid s]
      reserve_stmt_bound [of d sid s st "ci_sku item" "ci_qty item"]
      reserve_stmt_tables [of d st "ci_sku item" "ci_qty item"]
      reserve_stmt_reserved [of d st "ci_sku item" "ci_qty item" sid s]
    by (simp_all add: st1)
  show ?case
  proof (cases "c = 0")
    case True
    let ?tw = "takeWhile (\<lambda>p. ci_sku p \<noteq> ci_sku item) done"
    have res: "r = Inl (insufficientInventory (ci_sku item))"
      and d': "d' = release_all d1 st ?tw"
      using Cons.prems(4) True
      by (simp_all add: st1 rollback_release_all takeWhile_tail)
    have nn: "\<forall>i \<in> set done. 0 \<le> ci_qty i" using Cons.prems(2) by simp
    have le: "qty_of s ?tw \<le> qty_of s done" using nn by (rule qty_of_takeWhile)
    have ge: "0 \<le> qty_of s ?tw"
      by (rule qty_of_nonneg) (use nn in \<open>auto dest: set_takeWhileD\<close>)
    from release_all_key [OF d1(1), of st ?tw] d1 True le ge show ?thesis
      by (simp add: res d')
  next
    case False
    have rec: "reserve_loop d1 st ((done @ [item]) @ rest) rest = (r, d')"
      using Cons.prems(4) False by (simp add: st1)
    have nn: "\<forall>i \<in> set ((done @ [item]) @ rest). 0 \<le> ci_qty i" using Cons.prems(2) by simp
    have b: "reserved_of d1 sid s \<le> on_hand_of d1 sid s" using d1 by simp
    from Cons.IH [OF d1(1) nn b rec] d1 False show ?thesis
      by (auto split: sum.splits)
  qed
qed


lemma update_cart_ledger [simp]:
  "has_row (update_cart d cid f) sid s = has_row d sid s"
  "on_hand_of (update_cart d cid f) sid s = on_hand_of d sid s"
  "reserved_of (update_cart d cid f) sid s = reserved_of d sid s"
  "cart_items (update_cart d cid f) = cart_items d"
  by (simp_all add: update_cart_def has_row_def on_hand_of_def reserved_of_def)

lemma post_cart_checkout_key:
  assumes row: "has_row d sid s" and nn: "\<forall>i \<in> set (cart_items d). 0 \<le> ci_qty i"
    and le: "reserved_of d sid s \<le> on_hand_of d sid s"
    and run: "post_cart_checkout d st cid su cu stripe = (r, d')"
  shows "has_row d' sid s \<and> on_hand_of d' sid s = on_hand_of d sid s \<and>
         reserved_of d' sid s \<le> on_hand_of d sid s \<and> cart_items d' = cart_items d \<and>
         (case r of
            Inr ok \<Rightarrow> reserved_of d' sid s =
                        reserved_of d sid s +
                        (if s_id st = sid then qty_of s (items_of_cart d cid) else 0)
          | Inl e \<Rightarrow> reserved_of d sid s \<le> reserved_of d' sid s)"
proof -
  let ?items = "items_of_cart d cid"
  obtain r1 d1 where loop: "reserve_loop d (s_id st) ([] @ ?items) ?items = (r1, d1)"
    by (cases "reserve_loop d (s_id st) ([] @ ?items) ?items")
  have nn': "\<forall>i \<in> set ([] @ ?items). 0 \<le> ci_qty i"
    using nn by (simp add: items_of_cart_def)
  note k = reserve_loop_key [OF row nn' le loop]
  consider (stop) "\<exists>e. r = Inl e \<and> d' = d"
    | (fail) "\<exists>e. r = Inl e \<and> r1 = Inl e \<and> d' = d1"
    | (stripe) m where "r1 = Inr ()" "r = Inl (invalidRequest (''Stripe error: '' @ m))"
        "d' = release_all d1 (s_id st) ?items"
    | (ok) ok f where "r1 = Inr ()" "r = Inr ok" "d' = update_cart d1 cid f"
    using run loop
    by (auto simp: post_cart_checkout_def Let_def
        split: if_splits option.splits sum.splits stripe_create.splits prod.splits)
  then show ?thesis
  proof cases
    case stop
    then show ?thesis using row le by auto
  next
    case fail
    then show ?thesis using k by auto
  next
    case stripe
    from k have "has_row d1 sid s" by simp
    from release_all_key [OF this, of "s_id st" ?items] k stripe le show ?thesis
      by auto
  next
    case ok
    then show ?thesis using k by auto
  qed
qed

lemma checkouts_bound:
  assumes "has_row d sid s" and "\<forall>i \<in> set (cart_items d). 0 \<le> ci_qty i"
    and "reserved_of d sid s \<le> on_hand_of d sid s"
  shows "fst (checkouts d sid s as) \<le> on_hand_of d sid s - reserved_of d sid s"
  using assms
proof (induction as arbitrary: d)
  case Nil
  then show ?case by simp
next
  case (Cons a as)
  obtain r d' where run:
    "post_cart_checkout d (a_store a) (a_cart a) (a_success_url a) (a_cancel_url a) (a_stripe a) =
       (r, d')"
    by (cases "post_cart_checkout d (a_store a) (a_cart a) (a_success_url a) (a_cancel_url a)
          (a_stripe a)")
  note k = post_cart_checkout_key [OF Cons.prems run]
  have ih: "fst (checkouts d' sid s as) \<le> on_hand_of d' sid s - reserved_of d' sid s"
    using k Cons.prems by (intro Cons.IH) auto
  show ?case
  proof (cases r)
    case (Inl e)
    then show ?thesis using run k ih by auto
  next
    case (Inr ok)
    then show ?thesis using run k ih by (auto split: prod.splits)
  qed
qed

text \<open>
  Claim C1: on a SKU with an inventory record, the conditional update changes a row
  exactly when \<open>on_hand - reserved\<close> is at least the quantity, and then adds the
  quantity to \<open>reserved\<close> and nothing else; otherwise it changes nothing. When the
  record starts with \<open>N = on_hand - reserved \<ge> 0\<close> available units and no cart line has a
  negative quantity, the carts of the attempts that succeed in any sequence of checkout
  attempts hold at most \<open>N\<close> units of the SKU together.
\<close>

theorem checkout_reserves_at_most_available:
  assumes "inventory d (sid, s) = Some r" and "reserved r \<le> on_hand r"
    and "\<forall>i \<in> set (cart_items d). 0 \<le> ci_qty i"
  shows "reserve_stmt d sid s q =
           (if q \<le> on_hand r - reserved r
            then (1, d\<lparr>inventory := (inventory d)((sid, s) \<mapsto> r\<lparr>reserved := reserved r + q\<rparr>)\<rparr>)
            else (0, d)) \<and>
         fst (checkouts d sid s as) \<le> on_hand r - reserved r"
proof -
  have "fst (checkouts d sid s as) \<le> on_hand_of d sid s - reserved_of d sid s"
    using assms by (intro checkouts_bound) (simp_all add: has_row_def reserved_of_def on_hand_of_def)
  then show ?thesis using assms(1) by (simp add: reserve_stmt_def reserved_of_def on_hand_of_def)
qed

theorem checkout_reserves_at_most_available_witness:
  "fst (checkouts ex_two ''s1'' ''A'' [try_checkout ''c1'', try_checkout ''c2'']) = 2 \<and>
   fst (checkouts ex_two ''s1'' ''A'' [try_checkout ''c1'', try_checkout ''c2'']) \<le> 2 - 0 \<and>
   fst (reserve_stmt ex_two ''s1'' ''A'' 2) = 1 \<and>
   fst (reserve_stmt ex_two ''s1'' ''A'' 3) = 0"
proof -
  have row: "inventory ex_two (''s1'', ''A'') = Some \<lparr>on_hand = 2, reserved = 0\<rparr>"
    by (simp add: ex_two_def empty_db_def)
  have le: "reserved \<lparr>on_hand = 2, reserved = 0\<rparr> \<le> on_hand \<lparr>on_hand = 2, reserved = 0\<rparr>"
    by simp
  have nn: "\<forall>i \<in> set (cart_items ex_two). 0 \<le> ci_qty i"
    by (simp add: ex_two_def empty_db_def line_def)
  have sold: "fst (checkouts ex_two ''s1'' ''A'' [try_checkout ''c1'', try_checkout ''c2'']) = 2"
    by code_simp
  from checkout_reserves_at_most_available [OF row le nn, of 2 "[try_checkout ''c1'', try_checkout ''c2'']"]
    checkout_reserves_at_most_available [OF row le nn, of 3 "[]"]
  show ?thesis using sold by simp
qed

section \<open>Discount usage limit\<close>

lemma reserve_usage_stmt_within_limit:
  "list_all usage_within_limit (discounts d) \<Longrightarrow>
     list_all usage_within_limit (discounts (snd (reserve_usage_stmt d did t)))"
  by (auto simp: reserve_usage_stmt_def usage_within_limit_def usage_hit_def list_all_iff
      split: option.splits)

lemma reserve_usage_stmt_one_row:
  assumes "filter (\<lambda>x. d_id x = did) (discounts d) = [x]"
  shows "reserve_usage_stmt d did t =
           (if usage_hit did t x
            then (1, snd (reserve_usage_stmt d did t)) else (0, d)) \<and>
         filter (\<lambda>x. d_id x = did) (discounts (snd (reserve_usage_stmt d did t))) =
           [if usage_hit did t x then x\<lparr>d_usage_count := d_usage_count x + 1\<rparr> else x]"
proof -
  let ?f = "\<lambda>x. if usage_hit did t x then x\<lparr>d_usage_count := d_usage_count x + 1\<rparr> else x"
  have hit: "filter (usage_hit did t) (discounts d) = filter (usage_hit did t) [x]"
  proof -
    have "filter (usage_hit did t) (discounts d) =
            filter (usage_hit did t) (filter (\<lambda>x. d_id x = did) (discounts d))"
      by (rule filter_cong [OF refl, THEN trans [OF _ filter_filter [symmetric]]])
        (auto simp: usage_hit_def)
    then show ?thesis by (simp only: assms)
  qed
  have rows: "filter (\<lambda>x. d_id x = did) (map ?f (discounts d)) = map ?f [x]"
  proof -
    have "filter (\<lambda>x. d_id x = did) (map ?f (discounts d)) =
            map ?f (filter (\<lambda>x. d_id x = did) (discounts d))"
      by (induction "discounts d" arbitrary: d) (simp_all add: filter_map comp_def)
    then show ?thesis by (simp only: assms)
  qed
  have same: "\<not> usage_hit did t x \<Longrightarrow> map ?f (discounts d) = discounts d"
  proof -
    assume "\<not> usage_hit did t x"
    with hit have "filter (usage_hit did t) (discounts d) = []" by simp
    then have "\<forall>y \<in> set (discounts d). \<not> usage_hit did t y"
      by (simp add: filter_empty_conv)
    then show ?thesis by (simp add: map_idI)
  qed
  show ?thesis
    using hit rows same by (auto simp: reserve_usage_stmt_def)
qed


lemma usage_attempts_count:
  assumes "filter (\<lambda>x. d_id x = did) (discounts d) = [x]" and "d_status x = DActive"
    and "\<forall>t \<in> set ts. in_window x t" and "d_usage_limit x = Some K"
    and "d_usage_count x \<le> K"
  shows "fst (reserve_usage_attempts d did ts) = min (length ts) (nat (K - d_usage_count x)) \<and>
         map d_usage_count
           (filter (\<lambda>x. d_id x = did) (discounts (snd (reserve_usage_attempts d did ts)))) =
           [d_usage_count x + int (min (length ts) (nat (K - d_usage_count x)))]"
  using assms
proof (induction ts arbitrary: d x)
  case Nil
  then show ?case by simp
next
  case (Cons t ts)
  have idx: "d_id x = did"
  proof -
    have "x \<in> set (filter (\<lambda>x. d_id x = did) (discounts d))" by (simp add: Cons.prems(1))
    then show ?thesis by simp
  qed
  have hit: "usage_hit did t x \<longleftrightarrow> d_usage_count x < K"
    using Cons.prems idx by (simp add: usage_hit_def)
  note one = reserve_usage_stmt_one_row [OF Cons.prems(1), of t]
  obtain c d' where st: "reserve_usage_stmt d did t = (c, d')"
    by (cases "reserve_usage_stmt d did t")
  show ?case
  proof (cases "d_usage_count x < K")
    case True
    let ?x' = "x\<lparr>d_usage_count := d_usage_count x + 1\<rparr>"
    have c: "c = 1" and rows: "filter (\<lambda>x. d_id x = did) (discounts d') = [?x']"
      using one hit True st by simp_all
    have ih: "fst (reserve_usage_attempts d' did ts) =
                min (length ts) (nat (K - d_usage_count ?x')) \<and>
              map d_usage_count
                (filter (\<lambda>x. d_id x = did) (discounts (snd (reserve_usage_attempts d' did ts)))) =
                [d_usage_count ?x' + int (min (length ts) (nat (K - d_usage_count ?x')))]"
      using Cons.prems True by (intro Cons.IH [OF rows]) (simp_all add: in_window_def)
    obtain n d'' where rec: "reserve_usage_attempts d' did ts = (n, d'')"
      by (cases "reserve_usage_attempts d' did ts")
    have ar: "Suc (min (length ts) (nat (K - (d_usage_count x + 1)))) =
              min (Suc (length ts)) (nat (K - d_usage_count x))"
      using True by (simp add: min_def) arith
    from ih have n: "n = min (length ts) (nat (K - (d_usage_count x + 1)))"
      and rows'': "map d_usage_count (filter (\<lambda>x. d_id x = did) (discounts d'')) =
        [d_usage_count x + 1 + int (min (length ts) (nat (K - (d_usage_count x + 1))))]"
      by (simp_all add: rec)
    have "Suc n = min (Suc (length ts)) (nat (K - d_usage_count x))"
      using n ar by simp
    moreover have "d_usage_count x + 1 + int n =
        d_usage_count x + int (min (Suc (length ts)) (nat (K - d_usage_count x)))"
      using \<open>Suc n = _\<close> by (metis add.assoc add.commute of_nat_Suc)
    ultimately show ?thesis
      using rows'' n c by (simp add: st rec)
  next
    case False
    then have eq: "d_usage_count x = K" using Cons.prems(5) by simp
    have c: "c = 0" and same: "d' = d"
      using one hit False st by simp_all
    have ih: "fst (reserve_usage_attempts d did ts) =
                min (length ts) (nat (K - d_usage_count x)) \<and>
              map d_usage_count
                (filter (\<lambda>x. d_id x = did) (discounts (snd (reserve_usage_attempts d did ts)))) =
                [d_usage_count x + int (min (length ts) (nat (K - d_usage_count x)))]"
      using Cons.prems by (intro Cons.IH) simp_all
    show ?thesis
      using ih c same eq by (simp add: st split: prod.splits)
  qed
qed


text \<open>
  The conditional update of the usage counter, on the one row of a discount that is
  active, inside its window at every attempt, and has the limit \<open>K\<close>: of any number of
  reservation attempts exactly as many change the row as the counter is short of \<open>K\<close>
  (all of them if they are fewer), each adds 1, and the counter ends at most at \<open>K\<close>.
\<close>

theorem usage_reservations_stop_at_limit:
  assumes "filter (\<lambda>x. d_id x = did) (discounts d) = [x]" and "d_status x = DActive"
    and "\<forall>t \<in> set ts. in_window x t" and "d_usage_limit x = Some K"
    and "d_usage_count x \<le> K"
  shows "fst (reserve_usage_attempts d did ts) = min (length ts) (nat (K - d_usage_count x)) \<and>
         map d_usage_count
           (filter (\<lambda>x. d_id x = did) (discounts (snd (reserve_usage_attempts d did ts)))) =
           [d_usage_count x + int (min (length ts) (nat (K - d_usage_count x)))] \<and>
         d_usage_count x + int (min (length ts) (nat (K - d_usage_count x))) \<le> K"
proof -
  have "d_usage_count x + int (min (length ts) (nat (K - d_usage_count x))) \<le> K"
    using assms(5) by (simp add: min_def) linarith
  with usage_attempts_count [OF assms] show ?thesis by simp
qed

theorem usage_reservations_stop_at_limit_witness:
  "fst (reserve_usage_attempts ex_disc_fresh ''D1'' [10, 20, 30]) = 2 \<and>
   map d_usage_count (discounts (snd (reserve_usage_attempts ex_disc_fresh ''D1'' [10, 20, 30]))) = [2]"
proof -
  let ?x = "\<lparr>d_id = ''D1'', d_store_id = ''s1'', d_code = ''SAVE'', d_status = DActive,
         d_starts_at = None, d_expires_at = Some 100, d_usage_limit = Some (2::int),
         d_usage_limit_per_customer = None, d_usage_count = 0\<rparr>"
  have a: "filter (\<lambda>x. d_id x = ''D1'') (discounts ex_disc_fresh) = [?x]"
    by (simp add: ex_disc_fresh_def)
  have b: "\<forall>t \<in> set [10, 20, 30]. in_window ?x t" by (simp add: in_window_def)
  have c: "map d_usage_count (discounts (snd (reserve_usage_attempts ex_disc_fresh ''D1'' [10, 20, 30]))) = [2]"
    by (simp add: ex_disc_fresh_def empty_db_def reserve_usage_stmt_def usage_hit_def in_window_def)
  from usage_reservations_stop_at_limit [OF a _ b, of 2]
  have "fst (reserve_usage_attempts ex_disc_fresh ''D1'' [10, 20, 30]) = 2" by simp
  with c show ?thesis by simp
qed

section \<open>The invariant of an inventory record\<close>

lemma dispatch_loop_tables:
  "\<exists>rows. snd (dispatch_loop d new_id eventType t ws scheduled) = d\<lparr>webhook_deliveries := rows\<rparr>"
proof (induction ws arbitrary: d scheduled)
  case Nil
  have "d = d\<lparr>webhook_deliveries := webhook_deliveries d\<rparr>" by simp
  then show ?case by (metis dispatch_loop.simps(1) snd_conv)
next
  case (Cons w ws)
  show ?case
  proof (cases "isSubscribed w eventType")
    case False
    then show ?thesis using Cons.IH [of d scheduled] by simp
  next
    case True
    let ?row = "\<lparr>wd_id = new_id (w_id w), wd_webhook_id = w_id w, wd_event_type = eventType,
                  wd_status = Pending, wd_attempts = 0, wd_response_code = None,
                  wd_created_at = t\<rparr>"
    from Cons.IH [of "d\<lparr>webhook_deliveries := webhook_deliveries d @ [?row]\<rparr>"
        "scheduled @ [new_id (w_id w)]"]
    obtain rows where
      "snd (dispatch_loop (d\<lparr>webhook_deliveries := webhook_deliveries d @ [?row]\<rparr>) new_id
              eventType t ws (scheduled @ [new_id (w_id w)])) =
         d\<lparr>webhook_deliveries := webhook_deliveries d @ [?row]\<rparr>\<lparr>webhook_deliveries := rows\<rparr>"
      by blast
    then show ?thesis using True by (auto simp: Let_def)
  qed
qed

lemma dispatchWebhooks_tables:
  "\<exists>rows. snd (dispatchWebhooks d new_id storeId eventType t) = d\<lparr>webhook_deliveries := rows\<rparr>"
  unfolding dispatchWebhooks_def by (rule dispatch_loop_tables)

lemma checkLowInventory_inventory [simp]:
  "inventory (snd (checkLowInventory d new_id storeId available t)) = inventory d"
proof -
  obtain rows where
    "snd (dispatchWebhooks d new_id storeId ''inventory.low'' t) = d\<lparr>webhook_deliveries := rows\<rparr>"
    using dispatchWebhooks_tables by blast
  then show ?thesis by (simp add: checkLowInventory_def)
qed

text \<open>
  Claim C2, as the code has it. On a record that satisfies \<open>0 \<le> reserved \<le> on_hand\<close>:
  a reservation and the reaper's release of a quantity \<open>q \<ge> 0\<close> keep the invariant; the
  sale commit and the checkout's release keep it when \<open>q \<le> reserved\<close> (they are never
  rejected); the adjustment is rejected exactly for an unknown reason or a negative
  delta that would make \<open>on_hand\<close> negative, otherwise it adds the delta to \<open>on_hand\<close>
  alone, so that \<open>on_hand\<close> and \<open>reserved\<close> stay non-negative and the invariant holds
  afterwards exactly when \<open>reserved \<le> on_hand + delta\<close>.
\<close>

theorem ledger_invariant_per_operation:
  assumes "inventory d (sid, s) = Some r" and "ledger_ok r" and "0 \<le> q"
  shows "(\<exists>r'. inventory (snd (reserve_stmt d sid s q)) (sid, s) = Some r' \<and> ledger_ok r') \<and>
         (\<exists>r'. inventory (release_floor_stmt d sid s q) (sid, s) = Some r' \<and> ledger_ok r') \<and>
         (q \<le> reserved r \<longrightarrow>
            (\<exists>r'. inventory (commit_sale_stmt d sid s q) (sid, s) = Some r' \<and> ledger_ok r')) \<and>
         (q \<le> reserved r \<longrightarrow>
            (\<exists>r'. inventory (release_stmt d sid s q) (sid, s) = Some r' \<and> ledger_ok r')) \<and>
         inventory (snd (post_inventory_adjust d new_id t sid s delta reason)) (sid, s) =
           Some (if adjust_reason reason = None \<or> (delta < 0 \<and> on_hand r + delta < 0) then r
                 else r\<lparr>on_hand := on_hand r + delta\<rparr>) \<and>
         ((\<exists>e. fst (post_inventory_adjust d new_id t sid s delta reason) = Inl e) \<longleftrightarrow>
            adjust_reason reason = None \<or> (delta < 0 \<and> on_hand r + delta < 0)) \<and>
         (\<not> (delta < 0 \<and> on_hand r + delta < 0) \<longrightarrow>
            0 \<le> on_hand r + delta \<and>
            (ledger_ok (r\<lparr>on_hand := on_hand r + delta\<rparr>) \<longleftrightarrow> reserved r \<le> on_hand r + delta))"
proof -
  have res: "\<exists>r'. inventory (snd (reserve_stmt d sid s q)) (sid, s) = Some r' \<and> ledger_ok r'"
    using assms by (auto simp: reserve_stmt_def ledger_ok_def)
  have rel: "\<exists>r'. inventory (release_floor_stmt d sid s q) (sid, s) = Some r' \<and> ledger_ok r'"
    using assms by (auto simp: release_floor_stmt_def ledger_ok_def)
  have com: "q \<le> reserved r \<longrightarrow>
      (\<exists>r'. inventory (commit_sale_stmt d sid s q) (sid, s) = Some r' \<and> ledger_ok r')"
    using assms by (auto simp: commit_sale_stmt_def ledger_ok_def)
  have rel2: "q \<le> reserved r \<longrightarrow>
      (\<exists>r'. inventory (release_stmt d sid s q) (sid, s) = Some r' \<and> ledger_ok r')"
    using assms by (auto simp: release_stmt_def ledger_ok_def)
  have adj: "inventory (snd (post_inventory_adjust d new_id t sid s delta reason)) (sid, s) =
           Some (if adjust_reason reason = None \<or> (delta < 0 \<and> on_hand r + delta < 0) then r
                 else r\<lparr>on_hand := on_hand r + delta\<rparr>)"
    using assms(1)
    by (auto simp: post_inventory_adjust_def insert_log_def Let_def split: option.splits)
  have rej: "(\<exists>e. fst (post_inventory_adjust d new_id t sid s delta reason) = Inl e) \<longleftrightarrow>
            adjust_reason reason = None \<or> (delta < 0 \<and> on_hand r + delta < 0)"
    using assms(1)
    by (auto simp: post_inventory_adjust_def Let_def split: option.splits)
  have inv: "\<not> (delta < 0 \<and> on_hand r + delta < 0) \<longrightarrow>
            0 \<le> on_hand r + delta \<and>
            (ledger_ok (r\<lparr>on_hand := on_hand r + delta\<rparr>) \<longleftrightarrow> reserved r \<le> on_hand r + delta)"
    using assms(2) by (auto simp: ledger_ok_def)
  from res rel com rel2 adj rej inv show ?thesis by blast
qed

theorem ledger_invariant_per_operation_witness:
  "inventory (snd (reserve_stmt ex_adj ''s1'' ''A'' 2)) (''s1'', ''A'') =
     Some \<lparr>on_hand = 5, reserved = 5\<rparr> \<and>
   inventory (release_floor_stmt ex_adj ''s1'' ''A'' 2) (''s1'', ''A'') =
     Some \<lparr>on_hand = 5, reserved = 1\<rparr> \<and>
   inventory (commit_sale_stmt ex_adj ''s1'' ''A'' 2) (''s1'', ''A'') =
     Some \<lparr>on_hand = 3, reserved = 1\<rparr> \<and>
   inventory (snd (post_inventory_adjust ex_adj (\<lambda>w. ''d1'') 0 ''s1'' ''A'' (- 1) ''damaged''))
     (''s1'', ''A'') = Some \<lparr>on_hand = 4, reserved = 3\<rparr> \<and>
   (\<exists>r'. inventory (commit_sale_stmt ex_adj ''s1'' ''A'' 2) (''s1'', ''A'') = Some r' \<and> ledger_ok r') \<and>
   ledger_ok \<lparr>on_hand = 4, reserved = 3\<rparr>"
proof -
  have row: "inventory ex_adj (''s1'', ''A'') = Some \<lparr>on_hand = 5, reserved = 3\<rparr>"
    by (simp add: ex_adj_def empty_db_def)
  have ok: "ledger_ok \<lparr>on_hand = 5, reserved = 3\<rparr>" by (simp add: ledger_ok_def)
  note t = ledger_invariant_per_operation [OF row ok, of 2 "\<lambda>w. ''d1''" 0 "- 1" "''damaged''"]
  have "\<exists>r'. inventory (commit_sale_stmt ex_adj ''s1'' ''A'' 2) (''s1'', ''A'') = Some r' \<and>
          ledger_ok r'"
    using t by simp
  moreover have "inventory (snd (post_inventory_adjust ex_adj (\<lambda>w. ''d1'') 0 ''s1'' ''A'' (- 1)
      ''damaged'')) (''s1'', ''A'') = Some \<lparr>on_hand = 4, reserved = 3\<rparr>"
    using t by (simp add: adjust_reason_def)
  moreover have "inventory (snd (reserve_stmt ex_adj ''s1'' ''A'' 2)) (''s1'', ''A'') =
     Some \<lparr>on_hand = 5, reserved = 5\<rparr>"
    and "inventory (release_floor_stmt ex_adj ''s1'' ''A'' 2) (''s1'', ''A'') =
     Some \<lparr>on_hand = 5, reserved = 1\<rparr>"
    and "inventory (commit_sale_stmt ex_adj ''s1'' ''A'' 2) (''s1'', ''A'') =
     Some \<lparr>on_hand = 3, reserved = 1\<rparr>"
    and "ledger_ok \<lparr>on_hand = 4, reserved = 3\<rparr>"
    by (simp_all add: ex_adj_def empty_db_def reserve_stmt_def release_floor_stmt_def
        commit_sale_stmt_def ledger_ok_def)
  ultimately show ?thesis by blast
qed

text \<open>
  Against claim C2 as stated: an adjustment by \<open>-4\<close> of a record with five units on hand and
  three reserved is accepted and leaves \<open>reserved = 3 > on_hand = 1\<close>; a sale commit of four
  units on the same record is applied and leaves \<open>reserved = -1\<close>.
\<close>

theorem adjust_accepts_on_hand_below_reserved:
  "ledger_ok \<lparr>on_hand = 5, reserved = 3\<rparr> \<and>
   inventory ex_adj (''s1'', ''A'') = Some \<lparr>on_hand = 5, reserved = 3\<rparr> \<and>
   fst (post_inventory_adjust ex_adj one_id 0 ''s1'' ''A'' (- 4) ''damaged'') =
     Inr (\<lparr>on_hand = 1, reserved = 3\<rparr>, - 2) \<and>
   inventory (snd (post_inventory_adjust ex_adj one_id 0 ''s1'' ''A'' (- 4) ''damaged''))
     (''s1'', ''A'') = Some \<lparr>on_hand = 1, reserved = 3\<rparr> \<and>
   \<not> ledger_ok \<lparr>on_hand = 1, reserved = 3\<rparr> \<and>
   inventory (commit_sale_stmt ex_adj ''s1'' ''A'' 4) (''s1'', ''A'') =
     Some \<lparr>on_hand = 1, reserved = - 1\<rparr> \<and>
   \<not> ledger_ok \<lparr>on_hand = 1, reserved = - 1\<rparr>"
  by (simp add: ex_adj_def empty_db_def ledger_ok_def post_inventory_adjust_def adjust_reason_def
      insert_log_def commit_sale_stmt_def Let_def)

section \<open>Quantities of cart lines\<close>

text \<open>
  The items route is the only writer of cart lines, and it writes no line with a
  quantity below 1, so no cart line of a store that the route has filled is negative.
\<close>

lemma post_cart_items_quantities:
  assumes "\<forall>i \<in> set (cart_items d). 1 \<le> ci_qty i"
  shows "\<forall>i \<in> set (cart_items (snd (post_cart_items d sid cid items))). 1 \<le> ci_qty i"
proof -
  let ?d0 = "d\<lparr>cart_items := filter (\<lambda>i. ci_cart_id i \<noteq> cid) (cart_items d)\<rparr>"
  have kept: "\<forall>i \<in> set (cart_items ?d0). 1 \<le> ci_qty i" using assms by simp
  have run: "\<forall>i \<in> set (cart_items (snd (add_items ?d0 sid cid items []))). 1 \<le> ci_qty i"
  proof -
    obtain r d' where rd: "add_items ?d0 sid cid items [] = (r, d')"
      by (cases "add_items ?d0 sid cid items []")
    from add_items_effect [OF rd] obtain ins where
      d': "d' = ?d0\<lparr>cart_items := cart_items ?d0 @ ins\<rparr>"
      and ins: "map (\<lambda>i. (ci_sku i, ci_qty i)) ins = takeWhile (accepts ?d0 sid) items"
      by blast
    have "1 \<le> ci_qty i" if "i \<in> set ins" for i
    proof -
      from that have "(ci_sku i, ci_qty i) \<in> set (map (\<lambda>i. (ci_sku i, ci_qty i)) ins)" by force
      then have "(ci_sku i, ci_qty i) \<in> set (takeWhile (accepts ?d0 sid) items)"
        by (simp only: ins)
      then have "accepts ?d0 sid (ci_sku i, ci_qty i)" by (rule set_takeWhileD [THEN conjunct2])
      then show ?thesis by (simp add: accepts_def)
    qed
    with kept show ?thesis by (auto simp: rd d')
  qed
  show ?thesis
    using assms run by (auto simp: post_cart_items_def split: option.splits)
qed

section \<open>The reaper and checked-out carts\<close>

lemma ex_step_checkout1:
  "post_cart_checkout ex_shop store1 ''c1'' ''ok'' ''no'' (StripeSession ''cs1'' ''u1'') =
     (Inr (''u1'', ''cs1''), ex_checked_out1)"
  by (simp add: ex_checked_out1_def ex_shop_def empty_db_def open_cart_def line_def store1_def
      post_cart_checkout_def items_of_cart_def reserve_stmt_def update_cart_def)

lemma ex_step_checkout2:
  "post_cart_checkout ex_checked_out1 store1 ''c2'' ''ok'' ''no'' (StripeSession ''cs2'' ''u2'') =
     (Inr (''u2'', ''cs2''), ex_checked_out)"
  by (simp add: ex_checked_out1_def ex_checked_out_def ex_shop_def empty_db_def open_cart_def
      line_def store1_def post_cart_checkout_def items_of_cart_def reserve_stmt_def
      update_cart_def)

lemma handleCron_stops_after_first_sweep:
  "handleCron d currentTime oneHourAgo cutoff =
     (Inl (NoSuchColumn ''updated_at''), expired_loop d (expiredCarts d currentTime))"
  by (simp add: handleCron_def abandonedCheckouts_def)

text \<open>
  Claim C6 says that the sweep of abandoned checkouts releases no reservation that the
  ingestion of a payment has committed, and that for an abandoned checkout it returns
  \<open>reserved\<close> to its value before the checkout once the grace period is over. The sweep
  never runs: its query names the column \<^verbatim>\<open>updated_at\<close>, which the table of carts
  does not have, so in every state the reaper ends with the error of that query, after
  the sweep of expired open carts and before the retry of failed deliveries. Here \<open>c1\<close>
  and \<open>c2\<close> check out and reserve two units each, and no payment event arrives: at
  whatever time the reaper runs, it leaves the store as it is, with four units reserved
  and both carts checked out.
\<close>

theorem abandoned_checkout_is_never_released:
  "post_cart_checkout ex_shop store1 ''c1'' ''ok'' ''no'' (StripeSession ''cs1'' ''u1'') =
     (Inr (''u1'', ''cs1''), ex_checked_out1) \<and>
   post_cart_checkout ex_checked_out1 store1 ''c2'' ''ok'' ''no'' (StripeSession ''cs2'' ''u2'') =
     (Inr (''u2'', ''cs2''), ex_checked_out) \<and>
   inventory ex_shop (''s1'', ''A'') = Some \<lparr>on_hand = 5, reserved = 0\<rparr> \<and>
   inventory ex_checked_out (''s1'', ''A'') = Some \<lparr>on_hand = 5, reserved = 4\<rparr> \<and>
   map (\<lambda>c. (c_id c, c_status c)) (carts ex_checked_out) =
     [(''c1'', CheckedOut), (''c2'', CheckedOut)] \<and>
   (\<forall>currentTime oneHourAgo cutoff.
      handleCron ex_checked_out currentTime oneHourAgo cutoff =
        (Inl (NoSuchColumn ''updated_at''), ex_checked_out)) \<and>
   (\<forall>d currentTime oneHourAgo cutoff.
      handleCron d currentTime oneHourAgo cutoff =
        (Inl (NoSuchColumn ''updated_at''), expired_loop d (expiredCarts d currentTime)))"
proof -
  have "inventory ex_shop (''s1'', ''A'') = Some \<lparr>on_hand = 5, reserved = 0\<rparr>"
    by (simp add: ex_shop_def)
  moreover have "inventory ex_checked_out (''s1'', ''A'') = Some \<lparr>on_hand = 5, reserved = 4\<rparr>"
    by (simp add: ex_checked_out_def)
  moreover have "map (\<lambda>c. (c_id c, c_status c)) (carts ex_checked_out) =
      [(''c1'', CheckedOut), (''c2'', CheckedOut)]"
    by (simp add: ex_checked_out_def open_cart_def)
  moreover have "expiredCarts ex_checked_out currentTime = []" for currentTime
    by (simp add: expiredCarts_def ex_checked_out_def open_cart_def)
  ultimately show ?thesis
    using ex_step_checkout1 ex_step_checkout2
    by (simp add: handleCron_stops_after_first_sweep)
qed

section \<open>Test orders with a discount\<close>

lemma track_discount_usage_fails:
  "\<exists>e. fst (track_discount_usage d x discountAmountCents orderId customer_email currentTime) =
     Inl e"
  by (auto simp add: track_discount_usage_def db_run_result_def split: option.splits prod.splits)

text \<open>
  Claim C5 says that exactly K usage reservations succeed and that an attempt whose
  conditional update changes no row fails the whole order attempt with a limit-exhausted
  error. The test-order route reserves the usage after it has written the order, and it
  reads the number of changed rows off a call that returns nothing: no run of the usage
  tracking ends well. With the limit of 1 not used yet, the order that should succeed is
  answered with status 500; the order, its item, the deduction of one unit and the
  customer's statistics are written, the counter is raised to 1 and no usage record is
  written. With the limit used, the conditional update changes no row and the answer is
  the same status 500, not a limit-exhausted error, and the order with the discount of
  100 cents stays as well.
\<close>

theorem discounted_test_order_answers_internal_error:
  "(\<forall>d x discountAmountCents orderId customer_email currentTime.
      \<exists>e. fst (track_discount_usage d x discountAmountCents orderId customer_email currentTime) =
        Inl e) \<and>
   reserve_usage_stmt ex_disc_unused ''D1'' 50 = (1, ex_disc) \<and>
   post_orders_test ex_disc_unused (\<lambda>d x subtotal email. None) (\<lambda>x subtotal. 100) ''s1''
     ''a@b.co'' [(''A'', 1)] (Some ''SAVE'') ''cu1'' ''ORD-2'' ''o2'' 50 =
     (Inl (ApiError ''internal'' 500 ''Internal server error''), ex_disc_after) \<and>
   reserve_usage_stmt ex_disc ''D1'' 50 = (0, ex_disc) \<and>
   post_orders_test ex_disc (\<lambda>d x subtotal email. None) (\<lambda>x subtotal. 100) ''s1'' ''a@b.co''
     [(''A'', 1)] (Some ''SAVE'') ''cu1'' ''ORD-2'' ''o2'' 50 =
     (Inl (ApiError ''internal'' 500 ''Internal server error''), ex_disc_after) \<and>
   map (\<lambda>x. (o_id x, o_discount_amount_cents x)) (orders ex_disc_after) = [(''o2'', 100)] \<and>
   inventory ex_disc (''s1'', ''A'') = Some \<lparr>on_hand = 10, reserved = 0\<rparr> \<and>
   inventory ex_disc_after (''s1'', ''A'') = Some \<lparr>on_hand = 9, reserved = 0\<rparr> \<and>
   map d_usage_count (discounts ex_disc_after) = [1] \<and>
   discount_usage ex_disc_after = []"
proof -
  have "reserve_usage_stmt ex_disc_unused ''D1'' 50 = (1, ex_disc)"
    by (simp add: reserve_usage_stmt_def usage_hit_def in_window_def ex_disc_unused_def
        ex_disc_def empty_db_def)
  moreover have
    "post_orders_test ex_disc_unused (\<lambda>d x subtotal email. None) (\<lambda>x subtotal. 100) ''s1''
       ''a@b.co'' [(''A'', 1)] (Some ''SAVE'') ''cu1'' ''ORD-2'' ''o2'' 50 =
       (Inl (ApiError ''internal'' 500 ''Internal server error''), ex_disc_after)"
    by (simp add: post_orders_test_def track_discount_usage_def db_run_result_def
        reserve_usage_stmt_def usage_hit_def in_window_def upsert_customer_def
        ex_disc_after_def ex_disc_unused_def ex_disc_def empty_db_def Let_def)
  moreover have "reserve_usage_stmt ex_disc ''D1'' 50 = (0, ex_disc)"
    by (simp add: reserve_usage_stmt_def usage_hit_def in_window_def ex_disc_def empty_db_def)
  moreover have
    "post_orders_test ex_disc (\<lambda>d x subtotal email. None) (\<lambda>x subtotal. 100) ''s1'' ''a@b.co''
       [(''A'', 1)] (Some ''SAVE'') ''cu1'' ''ORD-2'' ''o2'' 50 =
       (Inl (ApiError ''internal'' 500 ''Internal server error''), ex_disc_after)"
    by (simp add: post_orders_test_def track_discount_usage_def db_run_result_def
        reserve_usage_stmt_def usage_hit_def in_window_def upsert_customer_def
        ex_disc_after_def ex_disc_def empty_db_def Let_def)
  moreover have
    "map (\<lambda>x. (o_id x, o_discount_amount_cents x)) (orders ex_disc_after) = [(''o2'', 100)]"
    "inventory ex_disc (''s1'', ''A'') = Some \<lparr>on_hand = 10, reserved = 0\<rparr>"
    "inventory ex_disc_after (''s1'', ''A'') = Some \<lparr>on_hand = 9, reserved = 0\<rparr>"
    "map d_usage_count (discounts ex_disc_after) = [1]"
    "discount_usage ex_disc_after = []"
    by (simp_all add: ex_disc_after_def ex_disc_def empty_db_def)
  ultimately show ?thesis using track_discount_usage_fails by blast
qed

section \<open>Replay of a Stripe event\<close>

lemma commit_sale_stmt_has_row [simp]:
  "has_row (commit_sale_stmt d st x q) sid s = has_row d sid s"
  by (simp add: commit_sale_stmt_def has_row_def split: option.splits)

lemma commit_sale_stmt_on_hand:
  "on_hand_of (commit_sale_stmt d st x q) sid s =
     on_hand_of d sid s - (if st = sid \<and> x = s \<and> has_row d sid s then q else 0)"
  by (auto simp add: commit_sale_stmt_def on_hand_of_def has_row_def split: option.splits)

lemma commit_sale_stmt_reserved:
  "reserved_of (commit_sale_stmt d st x q) sid s =
     reserved_of d sid s - (if st = sid \<and> x = s \<and> has_row d sid s then q else 0)"
  by (auto simp add: commit_sale_stmt_def reserved_of_def has_row_def split: option.splits)

lemma commit_sale_stmt_tables [simp]:
  "events (commit_sale_stmt d st x q) = events d"
  "stores (commit_sale_stmt d st x q) = stores d"
  "orders (commit_sale_stmt d st x q) = orders d"
  "order_items (commit_sale_stmt d st x q) = order_items d"
  "inventory_logs (commit_sale_stmt d st x q) = inventory_logs d"
  by (simp_all add: commit_sale_stmt_def split: option.splits)

lemma commit_items_tables [simp]:
  "events (commit_items d st oid xs) = events d"
  "stores (commit_items d st oid xs) = stores d"
  "orders (commit_items d st oid xs) = orders d"
  by (induction xs arbitrary: d) (simp_all add: Let_def insert_log_def)

lemma commit_items_key:
  "has_row (commit_items d st oid xs) sid s = has_row d sid s \<and>
   on_hand_of (commit_items d st oid xs) sid s =
     on_hand_of d sid s - (if st = sid \<and> has_row d sid s then qty_of s xs else 0) \<and>
   reserved_of (commit_items d st oid xs) sid s =
     reserved_of d sid s - (if st = sid \<and> has_row d sid s then qty_of s xs else 0)"
proof (induction xs arbitrary: d)
  case Nil
  then show ?case by simp
next
  case (Cons x xs)
  let ?d3 = "insert_log
     (commit_sale_stmt
        (d\<lparr>order_items := order_items d @
            [\<lparr>oi_order_id = oid, oi_sku = ci_sku x, oi_title = ci_title x, oi_qty = ci_qty x,
              oi_unit_price_cents = ci_unit_price_cents x\<rparr>]\<rparr>)
        st (ci_sku x) (ci_qty x))
     st (ci_sku x) (- ci_qty x) Sale"
  have step: "has_row ?d3 sid s = has_row d sid s"
    "on_hand_of ?d3 sid s =
       on_hand_of d sid s - (if st = sid \<and> ci_sku x = s \<and> has_row d sid s then ci_qty x else 0)"
    "reserved_of ?d3 sid s =
       reserved_of d sid s - (if st = sid \<and> ci_sku x = s \<and> has_row d sid s then ci_qty x else 0)"
    by (auto simp: insert_log_def commit_sale_stmt_def has_row_def on_hand_of_def reserved_of_def
        split: option.splits)
  have "commit_items d st oid (x # xs) = commit_items ?d3 st oid xs" by (simp add: Let_def)
  with Cons.IH [of ?d3] step show ?case by auto
qed

lemma upsert_customer_tables:
  "\<exists>c. snd (upsert_customer d sid email name phone spent new_id) = d\<lparr>customers := c\<rparr>"
  by (auto simp: upsert_customer_def split: option.splits)

lemma save_shipping_address_rows:
  "snd (save_shipping_address d customerId a name phone) =
     d\<lparr>customer_addresses :=
         customer_addresses (snd (save_shipping_address d customerId a name phone))\<rparr>"
  by (cases "sa_line1 a"; cases "sa_city a"; cases "sa_postal_code a"; cases "sa_country a")
     (simp_all add: save_shipping_address_def Let_def)

lemma save_shipping_address_tables:
  "\<exists>rows. snd (save_shipping_address d customerId a name phone) =
     d\<lparr>customer_addresses := rows\<rparr>"
  using save_shipping_address_rows by blast

text \<open>
  What the handling of a completed checkout has written when it stops, with or without
  an error: customers and their addresses at most, before the order is inserted.
\<close>

lemma handle_completed_events:
  "events (snd (handle_completed d st rq new_id t)) = events d"
proof (cases "rq_cart_id rq = [] \<or> find_cart d (rq_cart_id rq) = None \<or> rq_session rq = None")
  case True
  then show ?thesis
    by (auto simp: handle_completed_def Let_def split: option.splits)
next
  case False
  then obtain c session where c: "find_cart d (rq_cart_id rq) = Some c"
    and session: "rq_session rq = Some session" and cart: "rq_cart_id rq \<noteq> []"
    by auto
  let ?up = "upsert_customer d (s_id st) (c_customer_email c) (ss_name session)
               (ss_phone session) (or_zero (ss_amount_total session)) (rq_new_customer_id rq)"
  let ?sv = "case ss_address session of
               None \<Rightarrow> (Inr (), snd ?up)
             | Some a \<Rightarrow>
                 if fst ?up = [] then (Inr (), snd ?up)
                 else save_shipping_address (snd ?up) (fst ?up) a (ss_name session)
                        (ss_phone session)"
  obtain cs where d1: "snd ?up = d\<lparr>customers := cs\<rparr>"
    using upsert_customer_tables by blast
  have "\<exists>rows. snd ?sv = (snd ?up)\<lparr>customer_addresses := rows\<rparr>"
  proof (cases "ss_address session")
    case None
    then have "snd ?sv = (snd ?up)\<lparr>customer_addresses := customer_addresses (snd ?up)\<rparr>"
      by simp
    then show ?thesis by blast
  next
    case (Some a)
    show ?thesis
    proof (cases "fst ?up = []")
      case True
      with Some have "snd ?sv = (snd ?up)\<lparr>customer_addresses := customer_addresses (snd ?up)\<rparr>"
        by simp
      then show ?thesis by blast
    next
      case False
      with Some show ?thesis using save_shipping_address_tables by simp
    qed
  qed
  then obtain rows where sv: "snd ?sv = d\<lparr>customers := cs, customer_addresses := rows\<rparr>"
    unfolding d1 by auto
  show ?thesis
  proof (cases "fst ?sv")
    case (Inl e)
    then have "snd (handle_completed d st rq new_id t) = snd ?sv"
      using c session cart
      by (simp add: handle_completed_def Let_def split_beta split: prod.splits sum.splits)
    then show ?thesis by (simp add: sv)
  next
    case (Inr u)
    let ?ord = "\<lparr>o_id = rq_new_order_id rq, o_store_id = s_id st,
                 o_customer_id = Some (fst ?up), o_number = rq_order_number rq,
                 o_customer_email = c_customer_email c,
                 o_subtotal_cents = or_zero (ss_amount_subtotal session),
                 o_total_cents = or_zero (ss_amount_total session),
                 o_discount_id = None, o_discount_amount_cents = 0,
                 o_stripe_checkout_session_id = Some (ss_id session)\<rparr>"
    let ?d2 = "(snd ?sv)\<lparr>orders := orders (snd ?sv) @ [?ord]\<rparr>"
    let ?d3 = "commit_items ?d2 (s_id st) (rq_new_order_id rq) (items_of_cart d (rq_cart_id rq))"
    obtain drows where d4: "snd (dispatchWebhooks ?d3 new_id (s_id st) ''order.created'' t) =
        ?d3\<lparr>webhook_deliveries := drows\<rparr>"
      using dispatchWebhooks_tables by blast
    have "snd (handle_completed d st rq new_id t) = ?d3\<lparr>webhook_deliveries := drows\<rparr>"
      using c session cart Inr d4
      by (simp add: handle_completed_def Let_def split_beta split: prod.splits sum.splits)
    then show ?thesis by (simp add: sv)
  qed
qed

lemma handle_completed_effect:
  assumes "rq_cart_id rq \<noteq> []" and "find_cart d (rq_cart_id rq) = Some c"
    and "handle_completed d st rq new_id t = (Inr (), dp)"
  shows "events dp = events d \<and> stores dp = stores d \<and>
         (\<exists>ord. orders dp = orders d @ [ord] \<and> o_id ord = rq_new_order_id rq) \<and>
         (\<forall>sid s. has_row dp sid s = has_row d sid s \<and>
            on_hand_of dp sid s = on_hand_of d sid s -
              (if sid = s_id st \<and> has_row d sid s
               then qty_of s (items_of_cart d (rq_cart_id rq)) else 0) \<and>
            reserved_of dp sid s = reserved_of d sid s -
              (if sid = s_id st \<and> has_row d sid s
               then qty_of s (items_of_cart d (rq_cart_id rq)) else 0))"
proof -
  from assms obtain session where session: "rq_session rq = Some session"
    by (auto simp: handle_completed_def Let_def split: option.splits)
  let ?up = "upsert_customer d (s_id st) (c_customer_email c) (ss_name session)
               (ss_phone session) (or_zero (ss_amount_total session)) (rq_new_customer_id rq)"
  let ?sv = "case ss_address session of
               None \<Rightarrow> (Inr (), snd ?up)
             | Some a \<Rightarrow>
                 if fst ?up = [] then (Inr (), snd ?up)
                 else save_shipping_address (snd ?up) (fst ?up) a (ss_name session)
                        (ss_phone session)"
  obtain cs where d1: "snd ?up = d\<lparr>customers := cs\<rparr>"
    using upsert_customer_tables by blast
  have "\<exists>rows. snd ?sv = (snd ?up)\<lparr>customer_addresses := rows\<rparr>"
  proof (cases "ss_address session")
    case None
    then have "snd ?sv = (snd ?up)\<lparr>customer_addresses := customer_addresses (snd ?up)\<rparr>"
      by simp
    then show ?thesis by blast
  next
    case (Some a)
    show ?thesis
    proof (cases "fst ?up = []")
      case True
      with Some have "snd ?sv = (snd ?up)\<lparr>customer_addresses := customer_addresses (snd ?up)\<rparr>"
        by simp
      then show ?thesis by blast
    next
      case False
      with Some show ?thesis using save_shipping_address_tables by simp
    qed
  qed
  then obtain arows where sv: "snd ?sv = d\<lparr>customers := cs, customer_addresses := arows\<rparr>"
    unfolding d1 by auto
  have ok: "fst ?sv = Inr ()"
    using assms session
    by (auto simp: handle_completed_def Let_def split_beta split: prod.splits sum.splits)
  let ?ord = "\<lparr>o_id = rq_new_order_id rq, o_store_id = s_id st,
                 o_customer_id = Some (fst ?up), o_number = rq_order_number rq,
                 o_customer_email = c_customer_email c,
                 o_subtotal_cents = or_zero (ss_amount_subtotal session),
                 o_total_cents = or_zero (ss_amount_total session),
                 o_discount_id = None, o_discount_amount_cents = 0,
                 o_stripe_checkout_session_id = Some (ss_id session)\<rparr>"
  let ?d2 = "d\<lparr>customers := cs, customer_addresses := arows, orders := orders d @ [?ord]\<rparr>"
  let ?d3 = "commit_items ?d2 (s_id st) (rq_new_order_id rq) (items_of_cart d (rq_cart_id rq))"
  obtain rows where d4: "snd (dispatchWebhooks ?d3 new_id (s_id st) ''order.created'' t) =
      ?d3\<lparr>webhook_deliveries := rows\<rparr>"
    using dispatchWebhooks_tables by blast
  have d2: "(snd ?sv)\<lparr>orders := orders (snd ?sv) @ [?ord]\<rparr> = ?d2"
    by (simp add: sv)
  have "snd (handle_completed d st rq new_id t) =
      snd (dispatchWebhooks
             (commit_items ((snd ?sv)\<lparr>orders := orders (snd ?sv) @ [?ord]\<rparr>) (s_id st)
                (rq_new_order_id rq) (items_of_cart d (rq_cart_id rq)))
             new_id (s_id st) ''order.created'' t)"
    using assms(1,2) session ok
    by (simp add: handle_completed_def Let_def split_beta split: prod.splits sum.splits)
  then have dp: "dp = ?d3\<lparr>webhook_deliveries := rows\<rparr>"
    unfolding d2 using d4 assms(3) by simp
  have k: "\<And>sid s. has_row ?d2 sid s = has_row d sid s \<and> on_hand_of ?d2 sid s = on_hand_of d sid s
      \<and> reserved_of ?d2 sid s = reserved_of d sid s"
    by (simp add: has_row_def on_hand_of_def reserved_of_def)
  have k3: "\<And>sid s. has_row (?d3\<lparr>webhook_deliveries := rows\<rparr>) sid s = has_row ?d3 sid s \<and>
      on_hand_of (?d3\<lparr>webhook_deliveries := rows\<rparr>) sid s = on_hand_of ?d3 sid s \<and>
      reserved_of (?d3\<lparr>webhook_deliveries := rows\<rparr>) sid s = reserved_of ?d3 sid s"
    by (simp add: has_row_def on_hand_of_def reserved_of_def)
  show ?thesis
    unfolding dp using k k3
      commit_items_key [of ?d2 "s_id st" "rq_new_order_id rq" "items_of_cart d (rq_cart_id rq)"]
    by simp
qed

text \<open>A run of the handler that ends with an error has written no event.\<close>

lemma post_stripe_webhook_error_events:
  assumes "post_stripe_webhook d rq new_id t = (Inl e, d')"
  shows "events d' = events d"
proof (cases "d' = d")
  case True
  then show ?thesis by simp
next
  case False
  with assms obtain st where st: "stores d (rq_store_id rq) = Some st"
    by (auto simp: post_stripe_webhook_def split: if_splits option.splits)
  from False assms st have kind: "rq_event_type rq = ''checkout.session.completed''"
    by (auto simp: post_stripe_webhook_def split: if_splits option.splits prod.splits sum.splits)
  from False assms st kind have "d' = snd (handle_completed d st rq new_id t)"
    by (auto simp: post_stripe_webhook_def split: if_splits option.splits prod.splits sum.splits)
  then show ?thesis by (simp add: handle_completed_events)
qed

text \<open>
  Claim C4. Let the handler have processed a \<^verbatim>\<open>checkout.session.completed\<close> event
  for an existing cart, with an identifier that the dedup ledger did not hold. Then
  processing left \<^verbatim>\<open>events\<close> untouched and the identifier was appended to it
  afterwards, as the last write; the run appended one order and took the quantities of
  the cart's lines off \<open>on_hand\<close> and \<open>reserved\<close> of the store's records once. A second
  delivery of the same event (whatever identifiers it would generate and whatever the
  session retrieval would give) is answered with success and leaves the whole store
  as it is. And the identifier is written only as the last step: whatever the store and
  the delivery, a run of the handler that ends with an error at any point has left
  \<^verbatim>\<open>events\<close> as it was, so that the event is not taken for processed when it is
  delivered again.
\<close>

theorem stripe_event_replay_is_noop:
  assumes first: "post_stripe_webhook d rq new_id t = (Inr (), d1)"
    and fresh: "\<not> list_ex (\<lambda>e. e_stripe_event_id e = rq_event_id rq) (events d)"
    and kind: "rq_event_type rq = ''checkout.session.completed''"
    and cart: "rq_cart_id rq \<noteq> []" "find_cart d (rq_cart_id rq) = Some c"
  shows "post_stripe_webhook d1
           (rq\<lparr>rq_session := session', rq_new_customer_id := cid', rq_new_order_id := oid',
               rq_order_number := num'\<rparr>) new_id' t' = (Inr (), d1) \<and>
         (\<exists>st dp. stores d (rq_store_id rq) = Some st \<and>
            handle_completed d st rq new_id t = (Inr (), dp) \<and> events dp = events d \<and>
            d1 = dp\<lparr>events := events d @
                    [\<lparr>e_store_id = s_id st, e_stripe_event_id = rq_event_id rq,
                      e_type = rq_event_type rq\<rparr>]\<rparr> \<and>
            (\<exists>ord. orders d1 = orders d @ [ord] \<and> o_id ord = rq_new_order_id rq) \<and>
            (\<forall>sid s.
               on_hand_of d1 sid s = on_hand_of d sid s -
                 (if sid = s_id st \<and> has_row d sid s
                  then qty_of s (items_of_cart d (rq_cart_id rq)) else 0) \<and>
               reserved_of d1 sid s = reserved_of d sid s -
                 (if sid = s_id st \<and> has_row d sid s
                  then qty_of s (items_of_cart d (rq_cart_id rq)) else 0))) \<and>
         (\<forall>d0 rq0 new_id0 t0 e d0'.
            post_stripe_webhook d0 rq0 new_id0 t0 = (Inl e, d0') \<longrightarrow>
            events d0' = events d0)"
proof -
  from first fresh obtain st where st: "stores d (rq_store_id rq) = Some st"
    and checks: "rq_signature rq \<noteq> []" "rq_body_parses rq" "rq_store_id rq \<noteq> []"
      "s_stripe_webhook_secret st \<noteq> None" "s_stripe_webhook_secret st \<noteq> Some []"
      "rq_signature_valid rq"
    by (auto simp: post_stripe_webhook_def split: if_splits option.splits)
  obtain res dp where hc: "handle_completed d st rq new_id t = (res, dp)"
    by (cases "handle_completed d st rq new_id t")
  from first fresh st checks kind hc have res: "res = Inr ()"
    and d1: "d1 = dp\<lparr>events := events dp @
                    [\<lparr>e_store_id = s_id st, e_stripe_event_id = rq_event_id rq,
                      e_type = rq_event_type rq\<rparr>]\<rparr>"
    by (auto simp: post_stripe_webhook_def split: if_splits sum.splits)
  note eff = handle_completed_effect [OF cart hc [unfolded res]]
  have ev: "events dp = events d" and sto: "stores dp = stores d" using eff by simp_all
  have seen: "list_ex (\<lambda>e. e_stripe_event_id e = rq_event_id rq) (events d1)"
    by (simp add: d1)
  have again: "post_stripe_webhook d1
           (rq\<lparr>rq_session := session', rq_new_customer_id := cid', rq_new_order_id := oid',
               rq_order_number := num'\<rparr>) new_id' t' = (Inr (), d1)"
    using seen st checks sto by (simp add: post_stripe_webhook_def d1)
  have ledger: "\<forall>sid s.
               on_hand_of d1 sid s = on_hand_of d sid s -
                 (if sid = s_id st \<and> has_row d sid s
                  then qty_of s (items_of_cart d (rq_cart_id rq)) else 0) \<and>
               reserved_of d1 sid s = reserved_of d sid s -
                 (if sid = s_id st \<and> has_row d sid s
                  then qty_of s (items_of_cart d (rq_cart_id rq)) else 0)"
  proof (intro allI)
    fix sid s
    have "on_hand_of d1 sid s = on_hand_of dp sid s" "reserved_of d1 sid s = reserved_of dp sid s"
      by (simp_all add: d1 on_hand_of_def reserved_of_def)
    with eff show "on_hand_of d1 sid s = on_hand_of d sid s -
                 (if sid = s_id st \<and> has_row d sid s
                  then qty_of s (items_of_cart d (rq_cart_id rq)) else 0) \<and>
               reserved_of d1 sid s = reserved_of d sid s -
                 (if sid = s_id st \<and> has_row d sid s
                  then qty_of s (items_of_cart d (rq_cart_id rq)) else 0)"
      by simp
  qed
  have ord: "\<exists>ord. orders d1 = orders d @ [ord] \<and> o_id ord = rq_new_order_id rq"
    using eff by (simp add: d1)
  have failing: "\<forall>d0 rq0 new_id0 t0 e d0'.
            post_stripe_webhook d0 rq0 new_id0 t0 = (Inl e, d0') \<longrightarrow>
            events d0' = events d0"
    using post_stripe_webhook_error_events by blast
  from again st hc res ev d1 ord ledger have
    "post_stripe_webhook d1
           (rq\<lparr>rq_session := session', rq_new_customer_id := cid', rq_new_order_id := oid',
               rq_order_number := num'\<rparr>) new_id' t' = (Inr (), d1) \<and>
         (\<exists>st dp. stores d (rq_store_id rq) = Some st \<and>
            handle_completed d st rq new_id t = (Inr (), dp) \<and> events dp = events d \<and>
            d1 = dp\<lparr>events := events d @
                    [\<lparr>e_store_id = s_id st, e_stripe_event_id = rq_event_id rq,
                      e_type = rq_event_type rq\<rparr>]\<rparr> \<and>
            (\<exists>ord. orders d1 = orders d @ [ord] \<and> o_id ord = rq_new_order_id rq) \<and>
            (\<forall>sid s.
               on_hand_of d1 sid s = on_hand_of d sid s -
                 (if sid = s_id st \<and> has_row d sid s
                  then qty_of s (items_of_cart d (rq_cart_id rq)) else 0) \<and>
               reserved_of d1 sid s = reserved_of d sid s -
                 (if sid = s_id st \<and> has_row d sid s
                  then qty_of s (items_of_cart d (rq_cart_id rq)) else 0)))"
    by auto
  with failing show ?thesis by blast
qed

lemma ex_step_paid:
  "post_stripe_webhook ex_checked_out paid_c1 (\<lambda>w. ''d1'') 200 = (Inr (), ex_paid)"
  by (simp add: ex_paid_def ex_checked_out_def ex_shop_def empty_db_def open_cart_def
      line_def store1_def paid_c1_def post_stripe_webhook_def handle_completed_def
      find_cart_def items_of_cart_def upsert_customer_def save_shipping_address_def
      or_zero_def commit_sale_stmt_def insert_log_def dispatchWebhooks_def Let_def)

lemma ex_step_address_failed:
  "post_stripe_webhook ex_checked_out paid_c1_no_city (\<lambda>w. ''d1'') 200 =
     (Inl (ApiError ''internal'' 500 ''Internal server error''), ex_address_failed)"
  by (simp add: ex_address_failed_def ex_checked_out_def ex_shop_def empty_db_def open_cart_def
      line_def store1_def paid_c1_no_city_def paid_c1_def post_stripe_webhook_def
      handle_completed_def find_cart_def items_of_cart_def upsert_customer_def
      save_shipping_address_def or_zero_def Let_def)

theorem stripe_event_replay_is_noop_witness:
  "post_stripe_webhook ex_checked_out paid_c1 one_id 200 = (Inr (), ex_paid) \<and>
   post_stripe_webhook ex_paid
     (paid_c1\<lparr>rq_session := None, rq_new_customer_id := ''cu2'', rq_new_order_id := ''o2'',
        rq_order_number := ''ORD-2''\<rparr>) one_id 300 = (Inr (), ex_paid) \<and>
   map o_id (orders ex_paid) = [''o1''] \<and>
   on_hand_of ex_checked_out ''s1'' ''A'' = 5 \<and> on_hand_of ex_paid ''s1'' ''A'' = 3 \<and>
   reserved_of ex_checked_out ''s1'' ''A'' = 4 \<and> reserved_of ex_paid ''s1'' ''A'' = 2 \<and>
   post_stripe_webhook ex_checked_out paid_c1_no_city one_id 200 =
     (Inl (ApiError ''internal'' 500 ''Internal server error''), ex_address_failed) \<and>
   events ex_address_failed = events ex_checked_out \<and>
   events ex_checked_out = [] \<and>
   map_option cu_order_count (customers ex_address_failed (''s1'', ''a@b.co'')) = Some 1 \<and>
   orders ex_address_failed = []"
proof -
  have one: "one_id = (\<lambda>w. ''d1'')" by (rule ext) (simp add: one_id_def)
  have first: "post_stripe_webhook ex_checked_out paid_c1 one_id 200 = (Inr (), ex_paid)"
    unfolding one by (rule ex_step_paid)
  have failed: "post_stripe_webhook ex_checked_out paid_c1_no_city one_id 200 =
      (Inl (ApiError ''internal'' 500 ''Internal server error''), ex_address_failed)"
    unfolding one by (rule ex_step_address_failed)
  have fresh: "\<not> list_ex (\<lambda>e. e_stripe_event_id e = rq_event_id paid_c1) (events ex_checked_out)"
    by (simp add: ex_checked_out_def ex_shop_def empty_db_def)
  have kind: "rq_event_type paid_c1 = ''checkout.session.completed''"
    and cart: "rq_cart_id paid_c1 \<noteq> []"
    by (simp_all add: paid_c1_def)
  have c: "find_cart ex_checked_out (rq_cart_id paid_c1) =
      Some ((open_cart ''c1'' ''s1'' 9000)\<lparr>c_status := CheckedOut,
              c_stripe_checkout_session_id := Some ''cs1''\<rparr>)"
    by (simp add: find_cart_def paid_c1_def ex_checked_out_def open_cart_def)
  note t = stripe_event_replay_is_noop [where session' = None and cid' = "''cu2''"
      and oid' = "''o2''" and num' = "''ORD-2''" and new_id' = one_id and t' = 300,
      OF first fresh kind cart c]
  from t have again: "post_stripe_webhook ex_paid
     (paid_c1\<lparr>rq_session := None, rq_new_customer_id := ''cu2'', rq_new_order_id := ''o2'',
        rq_order_number := ''ORD-2''\<rparr>) one_id 300 = (Inr (), ex_paid)"
    by blast
  from t have "\<forall>d0 rq0 new_id0 t0 e d0'.
      post_stripe_webhook d0 rq0 new_id0 t0 = (Inl e, d0') \<longrightarrow> events d0' = events d0"
    by blast
  with failed have kept: "events ex_address_failed = events ex_checked_out"
    by blast
  have vals: "map o_id (orders ex_paid) = [''o1'']"
    "on_hand_of ex_checked_out ''s1'' ''A'' = 5" "on_hand_of ex_paid ''s1'' ''A'' = 3"
    "reserved_of ex_checked_out ''s1'' ''A'' = 4" "reserved_of ex_paid ''s1'' ''A'' = 2"
    "events ex_checked_out = []"
    "map_option cu_order_count (customers ex_address_failed (''s1'', ''a@b.co'')) = Some 1"
    "orders ex_address_failed = []"
    by (simp_all add: ex_paid_def ex_address_failed_def ex_checked_out_def ex_shop_def
        empty_db_def on_hand_of_def reserved_of_def)
  from first again failed kept vals show ?thesis by blast
qed

end
